theory Spec2Isabelle
  imports Complex_Main "HOL-Library.Word"
begin

section \<open>Lecture09\_PyTorch.ipynb: values and errors\<close>

text \<open>
  The notebook is a sequence of code cells run by one Python kernel. The cells, the class
  \<open>SimpleNN\<close>, the class \<open>CustomDataset\<close> and the training loop are the
  repository's code and are translated from it. Every cell calls the deep-learning
  framework (\<open>torch\<close>), which is not part of the repository: where a definition below
  gives the meaning of a framework call, its description starts with
  ``Modelled from the spec'' and says which call it stands for.

  Exceptions are values: a computation returns \<open>Inl e\<close> where the Python raises
  \<open>e\<close>, and \<open>Inr v\<close> where it returns \<open>v\<close>. \<open>Overflow\<close> is the error the
  framework raises for an integer that does not fit 64 bits. \<open>NotModelled\<close> marks a
  case that the notebook never reaches and that is left out.

  Integer tensors have dtype \<open>torch.int64\<close> and are lists of 64-bit words. Float
  tensors are lists of reals: rounding of the 32-bit floats is not modelled.
\<close>

datatype py_error =
    IndexError
  | NameError string
  | TypeError
  | RuntimeError
  | ValueError
  | Overflow
  | FileNotFoundError string
  | NotModelled string

definition bind :: "py_error + 'a \<Rightarrow> ('a \<Rightarrow> py_error + 'b) \<Rightarrow> py_error + 'b" where
  "bind m f = (case m of Inl e \<Rightarrow> Inl e | Inr v \<Rightarrow> f v)"

text \<open>A tensor of rank 0, 1 or 2, the ranks the notebook's cells compute with.\<close>

datatype 'a tensor = T0 'a | T1 "'a list" | T2 "'a list list"

type_synonym int64 = "64 word"

subsection \<open>Cell 3: arithmetic on 1-D tensors\<close>

text \<open>
  Modelled from the spec: the framework's tensor arithmetic, not in the repository.
  \<open>a + b\<close> and \<open>a * b\<close> on 1-D tensors work element by element; a tensor of one
  element is broadcast against the other operand, any other pair of different sizes raises
  \<open>RuntimeError\<close>.
\<close>

definition elementwise :: "('a \<Rightarrow> 'a \<Rightarrow> 'a) \<Rightarrow> 'a list \<Rightarrow> 'a list \<Rightarrow> py_error + 'a list" where
  "elementwise f a b =
     (if length a = length b then Inr (map2 f a b)
      else if length a = 1 then Inr (map (f (hd a)) b)
      else if length b = 1 then Inr (map (\<lambda>v. f v (hd b)) a)
      else Inl RuntimeError)"

definition tensor_add :: "int64 list \<Rightarrow> int64 list \<Rightarrow> py_error + int64 list" where
  "tensor_add a b = elementwise (+) a b"

definition tensor_mul :: "int64 list \<Rightarrow> int64 list \<Rightarrow> py_error + int64 list" where
  "tensor_mul a b = elementwise (*) a b"

text \<open>
  Modelled from the spec: \<open>torch.matmul\<close>, not in the repository. On two 1-D
  tensors it is their dot product, a tensor of rank 0; operands of different sizes raise
  \<open>RuntimeError\<close>.
\<close>

definition matmul :: "int64 list \<Rightarrow> int64 list \<Rightarrow> py_error + int64" where
  "matmul a b =
     (if length a = length b then Inr (foldl (+) 0 (map2 (*) a b)) else Inl RuntimeError)"

subsection \<open>Cell 4: device selection\<close>

datatype device = Mps | Cuda | Cpu

text \<open>
  The two arguments are what \<open>torch.backends.mps.is_available()\<close> and
  \<open>torch.cuda.is_available()\<close> return.
\<close>

definition select_device :: "bool \<Rightarrow> bool \<Rightarrow> device" where
  "select_device mps_available cuda_available =
     (if mps_available then Mps
      else if cuda_available then Cuda
      else Cpu)"

subsection \<open>Cell 8: the dataset wrapper\<close>

text \<open>
  Modelled from the spec: indexing is Python's and the framework's, not the repository's.
  \<open>seq[idx]\<close> on a tensor, along its first dimension (a 2-D tensor is the sequence
  of its rows): a negative index counts from the end; an index outside
  \<open>-len \<dots> len - 1\<close> raises \<open>IndexError\<close> when it fits a 64-bit integer, and the
  framework's overflow error when it does not.
\<close>

definition subscript :: "'a list \<Rightarrow> int \<Rightarrow> py_error + 'a" where
  "subscript xs idx =
     (if 0 \<le> idx \<and> idx < int (length xs) then Inr (xs ! nat idx)
      else if idx < 0 \<and> - int (length xs) \<le> idx then Inr (xs ! nat (int (length xs) + idx))
      else if idx < - (2 ^ 63) \<or> 2 ^ 63 \<le> idx then Inl Overflow
      else Inl IndexError)"

text \<open>
  \<^verbatim>\<open>
  class CustomDataset(Dataset):
      def __init__(self, X, y):
          self.X = X
          self.y = y
      def __len__(self):
          return len(self.X)
      def __getitem__(self, idx):
          return self.X[idx], self.y[idx]
  \<close>
  The constructor stores both sequences as they are, without comparing their lengths.
\<close>

record ('a, 'b) CustomDataset =
  self_X :: "'a list"
  self_y :: "'b list"

definition CustomDataset_init :: "'a list \<Rightarrow> 'b list \<Rightarrow> ('a, 'b) CustomDataset" where
  "CustomDataset_init X y = \<lparr>self_X = X, self_y = y\<rparr>"

definition len :: "('a, 'b) CustomDataset \<Rightarrow> nat" where
  "len self = length (self_X self)"

definition getitem :: "('a, 'b) CustomDataset \<Rightarrow> int \<Rightarrow> py_error + ('a \<times> 'b)" where
  "getitem self idx =
     bind (subscript (self_X self) idx) (\<lambda>a.
     bind (subscript (self_y self) idx) (\<lambda>b.
     Inr (a, b)))"

subsection \<open>Random numbers\<close>

text \<open>
  Modelled from the spec: the framework's random generator, not in the repository.
  \<open>torch.rand\<close>, \<open>torch.randn\<close> and the initialisation of a layer draw from it.
  The generator is a stream of reals; a draw takes the values at the front and returns the
  rest of the stream. Nothing is assumed about the values.
\<close>

type_synonym rng = "nat \<Rightarrow> real"

definition draw_vector :: "nat \<Rightarrow> rng \<Rightarrow> real list \<times> rng" where
  "draw_vector n g = (map g [0..<n], \<lambda>k. g (k + n))"

definition draw_matrix :: "nat \<Rightarrow> nat \<Rightarrow> rng \<Rightarrow> real list list \<times> rng" where
  "draw_matrix r c g =
     (map (\<lambda>i. map (\<lambda>j. g (i * c + j)) [0..<c]) [0..<r], \<lambda>k. g (k + r * c))"

subsection \<open>Cell 6: the network\<close>

text \<open>
  Modelled from the spec: \<open>nn.Parameter\<close> and \<open>nn.Linear\<close>, not in the
  repository. A parameter is a tensor with a gradient buffer \<open>.grad\<close>, which is
  \<open>None\<close> until a backward pass fills it.
\<close>

record 'a Parameter =
  data :: 'a
  grad :: "'a option"

text \<open>
  \<open>nn.Linear(in_features, out_features)\<close> holds a weight of shape
  \<open>(out_features, in_features)\<close> and a bias of shape \<open>(out_features)\<close>, both drawn
  at construction.
\<close>

record Linear =
  in_features :: nat
  out_features :: nat
  weight :: "real list list Parameter"
  bias :: "real list Parameter"

definition Linear_init :: "nat \<Rightarrow> nat \<Rightarrow> rng \<Rightarrow> Linear \<times> rng" where
  "Linear_init n_in n_out g =
     (let (w, g1) = draw_matrix n_out n_in g;
          (b, g2) = draw_vector n_out g1
      in (\<lparr>in_features = n_in, out_features = n_out,
            weight = \<lparr>data = w, grad = None\<rparr>, bias = \<lparr>data = b, grad = None\<rparr>\<rparr>, g2))"

definition dot :: "real list \<Rightarrow> real list \<Rightarrow> real" where
  "dot u v = sum_list (map2 (*) u v)"

text \<open>
  One row of \<open>x W\<^sup>T + b\<close>: entry \<open>k\<close> is the dot product of row \<open>k\<close> of the weight
  with the input row, plus entry \<open>k\<close> of the bias.
\<close>

definition affine_row :: "real list list \<Rightarrow> real list \<Rightarrow> real list \<Rightarrow> real list" where
  "affine_row w b r = map2 (\<lambda>wk bk. dot wk r + bk) w b"

text \<open>
  Calling a \<open>Linear\<close> on a batch (one sample per row) applies the transform to each
  row; a row whose length is not \<open>in_features\<close> raises \<open>RuntimeError\<close>. A single
  sample is a batch of one row.
\<close>

definition Linear_forward :: "Linear \<Rightarrow> real list list \<Rightarrow> py_error + real list list" where
  "Linear_forward l x =
     (if list_all (\<lambda>r. length r = in_features l) x
      then Inr (map (affine_row (data (weight l)) (data (bias l))) x)
      else Inl RuntimeError)"

definition relu :: "real list list \<Rightarrow> real list list" where
  "relu x = map (map (max 0)) x"

text \<open>
  \<^verbatim>\<open>
  class SimpleNN(nn.Module):
      def __init__(self):
          super(SimpleNN, self).__init__()
          self.layer1 = nn.Linear(10, 5)
          self.layer2 = nn.Linear(5, 1)
          self.relu = nn.ReLU()
      def forward(self, x):
          x = self.relu(self.layer1(x))
          x = self.layer2(x)
          return x
  \<close>
  \<open>self.relu\<close> has no parameters and no state; \<open>training\<close> is the mode flag of
  \<open>nn.Module\<close>, set by \<open>train()\<close> and \<open>eval()\<close>.
\<close>

record SimpleNN =
  layer1 :: Linear
  layer2 :: Linear
  training :: bool

definition SimpleNN_init :: "rng \<Rightarrow> SimpleNN \<times> rng" where
  "SimpleNN_init g =
     (let (l1, g1) = Linear_init 10 5 g;
          (l2, g2) = Linear_init 5 1 g1
      in (\<lparr>layer1 = l1, layer2 = l2, training = True\<rparr>, g2))"

definition forward :: "SimpleNN \<Rightarrow> real list list \<Rightarrow> py_error + real list list" where
  "forward self x =
     bind (Linear_forward (layer1 self) x) (\<lambda>x1.
     let x2 = relu x1 in
     Linear_forward (layer2 self) x2)"

text \<open>
  Modelled from the spec: \<open>nn.Module.state_dict()\<close>, not in the repository. It lists
  the parameters of the sub-modules by name, in the order \<open>__init__\<close> registers them.
\<close>

definition state_dict :: "SimpleNN \<Rightarrow> (string \<times> real tensor) list" where
  "state_dict self =
     [(''layer1.weight'', T2 (data (weight (layer1 self)))),
      (''layer1.bias'', T1 (data (bias (layer1 self)))),
      (''layer2.weight'', T2 (data (weight (layer2 self)))),
      (''layer2.bias'', T1 (data (bias (layer2 self))))]"

text \<open>The shape of a tensor; the rows of a matrix all have the length of the first.\<close>

fun shape :: "'a tensor \<Rightarrow> nat list" where
  "shape (T0 v) = []"
| "shape (T1 xs) = [length xs]"
| "shape (T2 rows) = [length rows, (case rows of [] \<Rightarrow> 0 | r # _ \<Rightarrow> length r)]"

definition is_matrix :: "nat \<Rightarrow> nat \<Rightarrow> 'a list list \<Rightarrow> bool" where
  "is_matrix r c m = (length m = r \<and> list_all (\<lambda>row. length row = c) m)"

subsection \<open>Cell 7: loss, gradients and the optimizer\<close>

text \<open>
  Modelled from the spec: \<open>nn.Module.__call__\<close>, not in the repository.
  \<open>model(X)\<close> runs \<open>forward\<close> while autograd records the computation. The result
  carries its value and what was recorded: the module as it was in the forward pass and
  the input it was applied to.
\<close>

record tracked =
  tensor_value :: "real list list"
  made_by :: SimpleNN
  made_from :: "real list list"

definition call_model :: "SimpleNN \<Rightarrow> real list list \<Rightarrow> py_error + tracked" where
  "call_model self x =
     bind (forward self x) (\<lambda>v. Inr \<lparr>tensor_value = v, made_by = self, made_from = x\<rparr>)"

text \<open>
  Modelled from the spec: \<open>nn.MSELoss\<close>, not in the repository. With the default
  reduction it is the mean over all elements of the squared difference. The notebook
  applies it to two tensors of one shape. On different shapes the framework broadcasts or
  raises; that case is outside this model and stops with \<open>NotModelled\<close>.
\<close>

record loss =
  item :: real
  of_outputs :: tracked
  of_target :: "real list list"

definition criterion :: "tracked \<Rightarrow> real list list \<Rightarrow> py_error + loss" where
  "criterion outputs y =
     (if map length (tensor_value outputs) = map length y
      then Inr \<lparr>item = sum_list (map2 (\<lambda>a b. (a - b)\<^sup>2) (concat (tensor_value outputs)) (concat y))
                        / real (length (concat y)),
                of_outputs = outputs, of_target = y\<rparr>
      else Inl (NotModelled ''MSELoss on different shapes''))"

text \<open>
  Modelled from the spec: autograd on the tensors of the network, not in the repository.
  The backward pass of a \<open>Linear\<close> applied to the batch \<open>x\<close>, given the gradient
  \<open>d\<close> of the loss with respect to its output: the gradients with respect to the
  weight (\<open>d\<^sup>T x\<close>), the bias (the column sums of \<open>d\<close>) and the input (\<open>d W\<close>).
\<close>

definition linear_backward ::
  "Linear \<Rightarrow> real list list \<Rightarrow> real list list \<Rightarrow> real list list \<times> real list \<times> real list list" where
  "linear_backward l x d =
     (map (\<lambda>k. map (\<lambda>j. sum_list (map2 (\<lambda>dr xr. dr ! k * xr ! j) d x)) [0..<in_features l])
          [0..<out_features l],
      map (\<lambda>k. sum_list (map (\<lambda>dr. dr ! k) d)) [0..<out_features l],
      map (\<lambda>dr. map (\<lambda>j. sum_list (map2 (\<lambda>dk wk. dk * wk ! j) dr (data (weight l))))
                     [0..<in_features l]) d)"

text \<open>A gradient is added to the buffer, or stored when the buffer is \<open>None\<close>.\<close>

definition accumulate_matrix :: "real list list Parameter \<Rightarrow> real list list \<Rightarrow> real list list Parameter" where
  "accumulate_matrix p g =
     p\<lparr>grad := Some (case grad p of None \<Rightarrow> g | Some g0 \<Rightarrow> map2 (map2 (+)) g0 g)\<rparr>"

definition accumulate_vector :: "real list Parameter \<Rightarrow> real list \<Rightarrow> real list Parameter" where
  "accumulate_vector p g =
     p\<lparr>grad := Some (case grad p of None \<Rightarrow> g | Some g0 \<Rightarrow> map2 (+) g0 g)\<rparr>"

text \<open>
  Modelled from the spec: \<open>Tensor.backward\<close>, not in the repository.
  \<open>loss.backward()\<close> is reverse accumulation through mean squared error, \<open>layer2\<close>,
  ReLU and \<open>layer1\<close>, with the values of the forward pass; each gradient goes into the
  buffer of its parameter in the module \<open>self\<close>.
\<close>

definition backward :: "loss \<Rightarrow> SimpleNN \<Rightarrow> SimpleNN" where
  "backward l self =
     (let m0 = made_by (of_outputs l);
          x = made_from (of_outputs l);
          z1 = map (affine_row (data (weight (layer1 m0))) (data (bias (layer1 m0)))) x;
          h = relu z1;
          out = tensor_value (of_outputs l);
          n = real (length (concat out));
          d_out = map2 (map2 (\<lambda>v t. 2 * (v - t) / n)) out (of_target l);
          (gw2, gb2, d_h) = linear_backward (layer2 m0) h d_out;
          d_z1 = map2 (map2 (\<lambda>z d. if 0 < z then d else 0)) z1 d_h;
          (gw1, gb1, d_x) = linear_backward (layer1 m0) x d_z1
      in self\<lparr>layer1 := (layer1 self)\<lparr>weight := accumulate_matrix (weight (layer1 self)) gw1,
                                        bias := accumulate_vector (bias (layer1 self)) gb1\<rparr>,
               layer2 := (layer2 self)\<lparr>weight := accumulate_matrix (weight (layer2 self)) gw2,
                                        bias := accumulate_vector (bias (layer2 self)) gb2\<rparr>\<rparr>)"

text \<open>
  Modelled from the spec: \<open>optim.SGD\<close>, not in the repository.
  \<open>optim.SGD(model.parameters(), lr=0.01)\<close> keeps references to the parameters of the
  module, so \<open>zero_grad\<close> and \<open>step\<close> act on the module. \<open>zero_grad()\<close> sets every
  buffer to \<open>None\<close>; \<open>step()\<close> replaces each parameter \<open>p\<close> that has a gradient
  \<open>g\<close> by \<open>p - lr * g\<close> and skips a parameter whose buffer is \<open>None\<close>.
\<close>

record SGD =
  lr :: real

definition zero_grad_linear :: "Linear \<Rightarrow> Linear" where
  "zero_grad_linear l = l\<lparr>weight := (weight l)\<lparr>grad := None\<rparr>, bias := (bias l)\<lparr>grad := None\<rparr>\<rparr>"

definition zero_grad :: "SimpleNN \<Rightarrow> SimpleNN" where
  "zero_grad self =
     self\<lparr>layer1 := zero_grad_linear (layer1 self), layer2 := zero_grad_linear (layer2 self)\<rparr>"

definition step_matrix :: "real \<Rightarrow> real list list Parameter \<Rightarrow> real list list Parameter" where
  "step_matrix rate p =
     (case grad p of None \<Rightarrow> p
      | Some g \<Rightarrow> p\<lparr>data := map2 (map2 (\<lambda>v d. v - rate * d)) (data p) g\<rparr>)"

definition step_vector :: "real \<Rightarrow> real list Parameter \<Rightarrow> real list Parameter" where
  "step_vector rate p =
     (case grad p of None \<Rightarrow> p
      | Some g \<Rightarrow> p\<lparr>data := map2 (\<lambda>v d. v - rate * d) (data p) g\<rparr>)"

definition step_linear :: "real \<Rightarrow> Linear \<Rightarrow> Linear" where
  "step_linear rate l =
     l\<lparr>weight := step_matrix rate (weight l), bias := step_vector rate (bias l)\<rparr>"

definition step :: "SGD \<Rightarrow> SimpleNN \<Rightarrow> SimpleNN" where
  "step opt self =
     self\<lparr>layer1 := step_linear (lr opt) (layer1 self),
          layer2 := step_linear (lr opt) (layer2 self)\<rparr>"

text \<open>
  The training loop. The state of the loop is the module, the variables the body assigns,
  the lines printed, and a record of the framework calls in the order they were made.
  \<^verbatim>\<open>
  for epoch in range(100):
      outputs = model(X)
      loss = criterion(outputs, y)
      optimizer.zero_grad()
      loss.backward()
      optimizer.step()
      if (epoch + 1) % 20 == 0:
          print(f'Epoch [{epoch+1}/100], Loss: {loss.item():.4f}')
  \<close>
\<close>

datatype call = CallForward | CallCriterion | CallZeroGrad | CallBackward | CallStep | CallPrint nat

record training =
  t_model :: SimpleNN
  t_outputs :: "tracked option"
  t_loss :: "loss option"
  t_epoch :: "nat option"
  t_printed :: "(nat \<times> real) list"
  t_calls :: "call list"

definition loop_body :: "real list list \<Rightarrow> real list list \<Rightarrow> SGD \<Rightarrow> nat \<Rightarrow> training \<Rightarrow> py_error + training" where
  "loop_body X y optimizer epoch s =
     (let s = s\<lparr>t_epoch := Some epoch\<rparr> in
      bind (call_model (t_model s) X) (\<lambda>outputs.
      let s = s\<lparr>t_outputs := Some outputs, t_calls := t_calls s @ [CallForward]\<rparr> in
      bind (criterion outputs y) (\<lambda>loss.
      let s = s\<lparr>t_loss := Some loss, t_calls := t_calls s @ [CallCriterion]\<rparr>;
          s = s\<lparr>t_model := zero_grad (t_model s), t_calls := t_calls s @ [CallZeroGrad]\<rparr>;
          s = s\<lparr>t_model := backward loss (t_model s), t_calls := t_calls s @ [CallBackward]\<rparr>;
          s = s\<lparr>t_model := step optimizer (t_model s), t_calls := t_calls s @ [CallStep]\<rparr>
      in if (epoch + 1) mod 20 = 0
         then Inr (s\<lparr>t_printed := t_printed s @ [(epoch + 1, item loss)],
                     t_calls := t_calls s @ [CallPrint (epoch + 1)]\<rparr>)
         else Inr s)))"

fun for_loop :: "(nat \<Rightarrow> 's \<Rightarrow> py_error + 's) \<Rightarrow> nat list \<Rightarrow> 's \<Rightarrow> py_error + 's" where
  "for_loop body [] s = Inr s"
| "for_loop body (i # rest) s = bind (body i s) (for_loop body rest)"

definition training_loop :: "real list list \<Rightarrow> real list list \<Rightarrow> SGD \<Rightarrow> training \<Rightarrow> py_error + training" where
  "training_loop X y optimizer s = for_loop (loop_body X y optimizer) [0..<100] s"

subsection \<open>Cell 5: autograd on a scalar expression\<close>

text \<open>
  Modelled from the spec: the framework's autograd on scalars, not in the repository
  (the glossary: it ``records operations on tracked tensors to compute gradients via
  reverse accumulation''). The operations applied to tracked tensors are recorded as a
  graph. A leaf is a tensor created with \<open>requires_grad=True\<close>, known here by the
  variable it is bound to.
  \<open>backward\<close> walks the graph from the result with the gradient \<open>1\<close>, multiplies by
  the local derivative at each operation (\<open>k * e ** (k - 1)\<close> for \<open>e ** k\<close>), and
  adds what arrives at a leaf to what that leaf already received.
\<close>

datatype graph = LeafNode string real | PowNode graph nat | AddNode graph graph

fun graph_value :: "graph \<Rightarrow> real" where
  "graph_value (LeafNode n v) = v"
| "graph_value (PowNode e k) = graph_value e ^ k"
| "graph_value (AddNode a b) = graph_value a + graph_value b"

fun backprop :: "graph \<Rightarrow> real \<Rightarrow> (string \<rightharpoonup> real) \<Rightarrow> (string \<rightharpoonup> real)" where
  "backprop (LeafNode n v) g acc = acc(n \<mapsto> (case acc n of None \<Rightarrow> g | Some g0 \<Rightarrow> g0 + g))"
| "backprop (PowNode e k) g acc = backprop e (g * (real k * graph_value e ^ (k - 1))) acc"
| "backprop (AddNode a b) g acc = backprop b g (backprop a g acc)"

definition receive :: "real Parameter \<Rightarrow> real option \<Rightarrow> real Parameter" where
  "receive p g =
     (case g of None \<Rightarrow> p
      | Some d \<Rightarrow> p\<lparr>grad := Some (case grad p of None \<Rightarrow> d | Some g0 \<Rightarrow> g0 + d)\<rparr>)"

text \<open>
  \<^verbatim>\<open>
  x = torch.tensor(2.0, requires_grad=True)
  y = torch.tensor(3.0, requires_grad=True)
  z = x**2 + y**3
  z.backward()
  \<close>
  with the two initial values as arguments; the result is \<open>x\<close>, \<open>y\<close> and \<open>z\<close> after
  the call of \<open>backward\<close>.
\<close>

definition autograd_example :: "real \<Rightarrow> real \<Rightarrow> real Parameter \<times> real Parameter \<times> graph" where
  "autograd_example xv yv =
     (let x = \<lparr>data = xv, grad = None\<rparr>;
          y = \<lparr>data = yv, grad = None\<rparr>;
          z = AddNode (PowNode (LeafNode ''x'' (data x)) 2) (PowNode (LeafNode ''y'' (data y)) 3);
          received = backprop z 1 Map.empty
      in (receive x (received ''x''), receive y (received ''y''), z))"

subsection \<open>The kernel: variables, output, files\<close>

text \<open>
  The layers of cell 11, by their constructor arguments, and the values a global variable
  of the notebook can hold.
\<close>

datatype layer = Conv2d nat nat nat | MaxPool2d nat | Dropout real | BatchNorm2d nat | ReLU | Sigmoid

datatype pyval =
    PyModule string
  | PyClass string
  | PyStr string
  | PySize "nat list"
  | PyInt int
  | PyFloat real
  | PyNone
  | NdArray "int64 list"
  | IntTensor "int64 tensor"
  | FloatTensor "real tensor"
  | Leaf "real Parameter"
  | Scalar graph
  | DeviceV device
  | Module SimpleNN
  | MSELoss
  | Optimizer SGD
  | Outputs tracked
  | Loss loss
  | Dataset "(real list, real list) CustomDataset"
  | DataLoader "(real list, real list) CustomDataset" nat bool
  | Layer layer

datatype file_op = FileWrite string | FileRead string

text \<open>
  The state of the kernel and of what it touches: the global variables (the cells share
  one namespace), the lines printed (the text of the line without its line breaks and the
  values formatted into it), the files holding saved parameters, the file operations and the training-loop calls made so far,
  the random generator, and the two facts about the machine that cell 4 asks for.
\<close>

record notebook =
  globals :: "string \<rightharpoonup> pyval"
  stdout :: "(string \<times> pyval list) list"
  files :: "string \<rightharpoonup> (string \<times> real tensor) list"
  file_ops :: "file_op list"
  calls :: "call list"
  generator :: rng
  mps_available :: bool
  cuda_available :: bool

definition lookup :: "notebook \<Rightarrow> string \<Rightarrow> py_error + pyval" where
  "lookup s n = (case globals s n of None \<Rightarrow> Inl (NameError n) | Some v \<Rightarrow> Inr v)"

text \<open>
  A cell that uses a module or calls a class needs the name bound to that module or class,
  as the notebook's imports and class statements bind it. Unbound, the use raises
  \<open>NameError\<close>. Bound to anything else, what Python does depends on that value; the
  notebook never does so and the case stops with \<open>NotModelled\<close>.
\<close>

definition need :: "notebook \<Rightarrow> string \<Rightarrow> pyval \<Rightarrow> py_error + unit" where
  "need s n v =
     (case globals s n of
        None \<Rightarrow> Inl (NameError n)
      | Some w \<Rightarrow> if w = v then Inr () else Inl (NotModelled n))"

definition assign :: "string \<Rightarrow> pyval \<Rightarrow> notebook \<Rightarrow> notebook" where
  "assign n v s = s\<lparr>globals := (globals s)(n \<mapsto> v)\<rparr>"

definition print :: "string \<Rightarrow> pyval list \<Rightarrow> notebook \<Rightarrow> notebook" where
  "print label vs s = s\<lparr>stdout := stdout s @ [(label, vs)]\<rparr>"

definition fresh_kernel :: "(string \<rightharpoonup> (string \<times> real tensor) list) \<Rightarrow> rng \<Rightarrow> bool \<Rightarrow> bool \<Rightarrow> notebook" where
  "fresh_kernel disk g mps cuda =
     \<lparr>globals = Map.empty, stdout = [], files = disk, file_ops = [], calls = [],
      generator = g, mps_available = mps, cuda_available = cuda\<rparr>"

subsection \<open>The code cells\<close>

text \<open>
  Each code cell is a function of the kernel state. A name is looked up where the cell
  first uses it, so a cell run before the cell that binds the name raises \<open>NameError\<close>.
  The imports are taken to succeed.
\<close>

definition cell1 :: "notebook \<Rightarrow> py_error + notebook" where
  "cell1 s =
     (let s = assign ''torch'' (PyModule ''torch'') s;
          s = assign ''np'' (PyModule ''numpy'') s;
          x = T1 [1, 2, 3, 4, 5];
          s = assign ''x'' (IntTensor x) s;
          s = print ''Tensor: '' [IntTensor x] s;
          s = print ''Type: '' [PyStr ''torch.int64''] s;
          s = print ''Shape: '' [PySize (shape x)] s
      in Inr s)"

definition cell2 :: "notebook \<Rightarrow> py_error + notebook" where
  "cell2 s =
     bind (need s ''np'' (PyModule ''numpy'')) (\<lambda>_.
     let array = [1, 2, 3];
         s = assign ''array'' (NdArray array) s
     in bind (need s ''torch'' (PyModule ''torch'')) (\<lambda>_.
     let tensor_from_array = IntTensor (T1 array);
         s = assign ''tensor_from_array'' tensor_from_array s;
         zeros = FloatTensor (T2 (replicate 3 (replicate 2 0)));
         s = assign ''zeros'' zeros s;
         ones = FloatTensor (T2 (replicate 2 (replicate 2 1)));
         s = assign ''ones'' ones s;
         (r, g) = draw_matrix 2 3 (generator s);
         s = s\<lparr>generator := g\<rparr>;
         random = FloatTensor (T2 r);
         s = assign ''random'' random s;
         s = print ''From array:'' [tensor_from_array] s;
         s = print ''Zeros:'' [zeros] s;
         s = print ''Ones:'' [ones] s;
         s = print ''Random:'' [random] s
     in Inr s))"

definition cell3 :: "notebook \<Rightarrow> py_error + notebook" where
  "cell3 s =
     bind (need s ''torch'' (PyModule ''torch'')) (\<lambda>_.
     let a = [1, 2, 3];
         s = assign ''a'' (IntTensor (T1 a)) s;
         b = [4, 5, 6];
         s = assign ''b'' (IntTensor (T1 b)) s
     in bind (tensor_add a b) (\<lambda>sum_ab.
     let s = print ''Addition:'' [IntTensor (T1 sum_ab)] s
     in bind (tensor_mul a b) (\<lambda>prod_ab.
     let s = print ''Multiplication:'' [IntTensor (T1 prod_ab)] s
     in bind (matmul a b) (\<lambda>dot_ab.
     let s = print ''Matrix Multiplication:'' [IntTensor (T0 dot_ab)] s;
         c = [[1, 2], [3, 4]];
         s = assign ''c'' (IntTensor (T2 c)) s;
         s = print ''Original:'' [IntTensor (T2 c)] s;
         s = print ''Reshaped:'' [IntTensor (T2 [concat c])] s
     in Inr s))))"

text \<open>
  Cell 4. The two availability flags are part of the kernel state, so of \<open>torch\<close>
  the cell asks only that the name is bound. \<open>x.to(device)\<close> returns a tensor of the
  same values on the selected device; where a tensor is stored is not part of its value
  here.
\<close>

definition cell4 :: "notebook \<Rightarrow> py_error + notebook" where
  "cell4 s =
     bind (lookup s ''torch'') (\<lambda>_.
     let device = select_device (mps_available s) (cuda_available s);
         s = assign ''device'' (DeviceV device) s;
         s = print ''Using device: '' [DeviceV device] s;
         x = IntTensor (T1 [1, 2, 3]);
         s = assign ''x'' x s;
         s = assign ''x'' x s
     in Inr s)"

definition show_grad :: "real Parameter \<Rightarrow> pyval" where
  "show_grad p = (case grad p of None \<Rightarrow> PyNone | Some g \<Rightarrow> PyFloat g)"

definition cell5 :: "notebook \<Rightarrow> py_error + notebook" where
  "cell5 s =
     bind (need s ''torch'' (PyModule ''torch'')) (\<lambda>_.
     let (x, y, z) = autograd_example 2 3;
         s = assign ''x'' (Leaf x) s;
         s = assign ''y'' (Leaf y) s;
         s = assign ''z'' (Scalar z) s;
         s = print ''dz/dx: '' [show_grad x] s;
         s = print ''dz/dy: '' [show_grad y] s
     in Inr s)"

definition cell6 :: "notebook \<Rightarrow> py_error + notebook" where
  "cell6 s =
     (let s = assign ''nn'' (PyModule ''torch.nn'') s;
          s = assign ''SimpleNN'' (PyClass ''SimpleNN'') s;
          (model, g) = SimpleNN_init (generator s);
          s = s\<lparr>generator := g\<rparr>;
          s = assign ''model'' (Module model) s;
          s = print [] [Module model] s
      in Inr s)"

definition assign_opt :: "string \<Rightarrow> pyval option \<Rightarrow> notebook \<Rightarrow> notebook" where
  "assign_opt n v s = (case v of None \<Rightarrow> s | Some w \<Rightarrow> assign n w s)"

definition cell7 :: "notebook \<Rightarrow> py_error + notebook" where
  "cell7 s =
     (let s = assign ''optim'' (PyModule ''torch.optim'') s
      in bind (need s ''torch'' (PyModule ''torch'')) (\<lambda>_.
      let (X, g) = draw_matrix 100 10 (generator s);
          s = s\<lparr>generator := g\<rparr>;
          s = assign ''X'' (FloatTensor (T2 X)) s;
          y = map (\<lambda>row. [sum_list row * 0.1]) X;
          s = assign ''y'' (FloatTensor (T2 y)) s
      in bind (need s ''SimpleNN'' (PyClass ''SimpleNN'')) (\<lambda>_.
      let (model, g) = SimpleNN_init (generator s);
          s = s\<lparr>generator := g\<rparr>;
          s = assign ''model'' (Module model) s
      in bind (need s ''nn'' (PyModule ''torch.nn'')) (\<lambda>_.
      let s = assign ''criterion'' MSELoss s;
          optimizer = \<lparr>lr = 0.01\<rparr>;
          s = assign ''optimizer'' (Optimizer optimizer) s
      in bind (training_loop X y optimizer
                 \<lparr>t_model = model, t_outputs = None, t_loss = None, t_epoch = None,
                  t_printed = [], t_calls = []\<rparr>) (\<lambda>t.
      let s = assign ''model'' (Module (t_model t)) s;
          s = assign_opt ''epoch'' (map_option (\<lambda>e. PyInt (int e)) (t_epoch t)) s;
          s = assign_opt ''outputs'' (map_option Outputs (t_outputs t)) s;
          s = assign_opt ''loss'' (map_option Loss (t_loss t)) s;
          s = s\<lparr>stdout := stdout s @ map (\<lambda>(e, l). (''Epoch'', [PyInt (int e), PyFloat l])) (t_printed t),
                 calls := calls s @ t_calls t\<rparr>
      in Inr s)))))"

definition as_matrix :: "pyval \<Rightarrow> py_error + real list list" where
  "as_matrix v = (case v of FloatTensor (T2 m) \<Rightarrow> Inr m | _ \<Rightarrow> Inl (NotModelled ''not a float matrix''))"

definition as_module :: "pyval \<Rightarrow> py_error + SimpleNN" where
  "as_module v = (case v of Module m \<Rightarrow> Inr m | _ \<Rightarrow> Inl (NotModelled ''not a SimpleNN''))"

text \<open>
  Cell 8 binds neither \<open>X\<close> nor \<open>y\<close>: \<open>CustomDataset(X, y)\<close> reads the two global
  variables. A 2-D tensor is the sequence of its rows.

  Modelled from the spec: \<open>DataLoader\<close>, not in the repository. With
  \<open>shuffle=True\<close> its constructor builds a random sampler, which asks the dataset for
  its length and raises \<open>ValueError\<close> when that is 0. The loader is kept by its
  constructor arguments; the cell never iterates over it.
\<close>

definition cell8 :: "notebook \<Rightarrow> py_error + notebook" where
  "cell8 s =
     (let s = assign ''Dataset'' (PyClass ''Dataset'') s;
          s = assign ''DataLoader'' (PyClass ''DataLoader'') s;
          s = assign ''CustomDataset'' (PyClass ''CustomDataset'') s
      in bind (lookup s ''X'') (\<lambda>xv.
      bind (lookup s ''y'') (\<lambda>yv.
      bind (as_matrix xv) (\<lambda>X.
      bind (as_matrix yv) (\<lambda>y.
      let dataset = CustomDataset_init X y;
          s = assign ''dataset'' (Dataset dataset) s
      in if len dataset = 0 then Inl ValueError
         else Inr (assign ''dataloader'' (DataLoader dataset 32 True) s))))))"

text \<open>
  Modelled from the spec: \<open>torch.save\<close> and \<open>torch.load\<close>, not in the
  repository. \<open>torch.save(obj, path)\<close> writes the file; \<open>torch.load(path)\<close> returns
  what the file holds and raises \<open>FileNotFoundError\<close> when there is no such file. The
  serialisation format is the framework's; a file is modelled by the state dict stored in
  it.
\<close>

definition torch_save :: "(string \<times> real tensor) list \<Rightarrow> string \<Rightarrow> notebook \<Rightarrow> notebook" where
  "torch_save obj path s =
     s\<lparr>files := (files s)(path \<mapsto> obj), file_ops := file_ops s @ [FileWrite path]\<rparr>"

definition torch_load :: "string \<Rightarrow> notebook \<Rightarrow> py_error + ((string \<times> real tensor) list \<times> notebook)" where
  "torch_load path s =
     (case files s path of
        None \<Rightarrow> Inl (FileNotFoundError path)
      | Some obj \<Rightarrow> Inr (obj, s\<lparr>file_ops := file_ops s @ [FileRead path]\<rparr>))"

fun same_shape :: "'a tensor \<Rightarrow> 'a tensor \<Rightarrow> bool" where
  "same_shape (T0 a) (T0 b) = True"
| "same_shape (T1 a) (T1 b) = (length a = length b)"
| "same_shape (T2 a) (T2 b) = (map length a = map length b)"
| "same_shape _ _ = False"

text \<open>
  Modelled from the spec: \<open>nn.Module.load_state_dict\<close>, not in the repository.
  In its default strict mode the keys of the loaded dict must be the names of the module's
  parameters, and each tensor must have the shape of the parameter it replaces;
  otherwise \<open>RuntimeError\<close>. The values are copied into the parameters.
\<close>

definition load_state_dict :: "SimpleNN \<Rightarrow> (string \<times> real tensor) list \<Rightarrow> py_error + SimpleNN" where
  "load_state_dict self sd =
     (let own = state_dict self in
      if list_all (\<lambda>k. k \<in> set (map fst own)) (map fst sd)
         \<and> list_all (\<lambda>(k, t). case map_of sd k of None \<Rightarrow> False | Some u \<Rightarrow> same_shape t u) own
      then (case (map_of sd ''layer1.weight'', map_of sd ''layer1.bias'',
                  map_of sd ''layer2.weight'', map_of sd ''layer2.bias'') of
              (Some (T2 w1), Some (T1 b1), Some (T2 w2), Some (T1 b2)) \<Rightarrow>
                Inr (self\<lparr>layer1 := (layer1 self)\<lparr>weight := (weight (layer1 self))\<lparr>data := w1\<rparr>,
                                                  bias := (bias (layer1 self))\<lparr>data := b1\<rparr>\<rparr>,
                          layer2 := (layer2 self)\<lparr>weight := (weight (layer2 self))\<lparr>data := w2\<rparr>,
                                                  bias := (bias (layer2 self))\<lparr>data := b2\<rparr>\<rparr>\<rparr>)
            | _ \<Rightarrow> Inl RuntimeError)
      else Inl RuntimeError)"

text \<open>
  Cell 9, first statement: \<open>torch.save(model.state_dict(), 'model.pth')\<close>, with
  \<open>model\<close> the global variable.
\<close>

definition save_model :: "notebook \<Rightarrow> py_error + notebook" where
  "save_model s =
     bind (need s ''torch'' (PyModule ''torch'')) (\<lambda>_.
     bind (lookup s ''model'') (\<lambda>mv.
     bind (as_module mv) (\<lambda>model.
     Inr (torch_save (state_dict model) ''model.pth'' s))))"

text \<open>
  Cell 9, the other two statements:
  \<^verbatim>\<open>
  loaded_model = SimpleNN()
  loaded_model.load_state_dict(torch.load('model.pth'))
  \<close>
\<close>

definition load_model :: "notebook \<Rightarrow> py_error + notebook" where
  "load_model s =
     bind (need s ''SimpleNN'' (PyClass ''SimpleNN'')) (\<lambda>_.
     let (loaded_model, g) = SimpleNN_init (generator s);
         s = s\<lparr>generator := g\<rparr>;
         s = assign ''loaded_model'' (Module loaded_model) s
     in bind (need s ''torch'' (PyModule ''torch'')) (\<lambda>_.
     bind (torch_load ''model.pth'' s) (\<lambda>(sd, s).
     bind (load_state_dict loaded_model sd) (\<lambda>loaded_model.
     Inr (assign ''loaded_model'' (Module loaded_model) s)))))"

definition cell9 :: "notebook \<Rightarrow> py_error + notebook" where
  "cell9 s = bind (save_model s) load_model"

definition cell10 :: "notebook \<Rightarrow> py_error + notebook" where
  "cell10 s =
     bind (lookup s ''model'') (\<lambda>mv.
     bind (as_module mv) (\<lambda>model.
     let model = model\<lparr>training := True\<rparr>;
         model = model\<lparr>training := False\<rparr>;
         s = assign ''model'' (Module model) s
     in bind (need s ''torch'' (PyModule ''torch'')) (\<lambda>_.
     bind (lookup s ''X'') (\<lambda>xv.
     bind (as_matrix xv) (\<lambda>X.
     bind (forward model X) (\<lambda>test_output.
     Inr (assign ''test_output'' (FloatTensor (T2 test_output)) s)))))))"

text \<open>
  Cell 11 constructs layers and calls none of them. A layer is kept by its constructor
  arguments; \<open>nn.Conv2d(3, 64, kernel_size=3)\<close> draws its weight (64 x 3 x 3 x 3) and
  bias (64) from the generator.
\<close>

definition cell11 :: "notebook \<Rightarrow> py_error + notebook" where
  "cell11 s =
     bind (need s ''nn'' (PyModule ''torch.nn'')) (\<lambda>_.
     let g = generator s;
         s = s\<lparr>generator := (\<lambda>k. g (k + (64 * 3 * 3 * 3 + 64)))\<rparr>;
         s = assign ''conv'' (Layer (Conv2d 3 64 3)) s;
         s = assign ''pool'' (Layer (MaxPool2d 2)) s;
         s = assign ''dropout'' (Layer (Dropout 0.5)) s;
         s = assign ''batch_norm'' (Layer (BatchNorm2d 64)) s;
         s = assign ''relu'' (Layer ReLU) s;
         s = assign ''sigmoid'' (Layer Sigmoid) s
     in Inr s)"

text \<open>Running cells one after the other stops at the first exception.\<close>

fun run :: "(notebook \<Rightarrow> py_error + notebook) list \<Rightarrow> notebook \<Rightarrow> py_error + notebook" where
  "run [] s = Inr s"
| "run (c # cs) s = bind (c s) (run cs)"

definition code_cells :: "(notebook \<Rightarrow> py_error + notebook) list" where
  "code_cells = [cell1, cell2, cell3, cell4, cell5, cell6, cell7, cell8, cell9, cell10, cell11]"

subsection \<open>Shapes\<close>

text \<open>
  A \<open>Linear\<close> from \<open>n_in\<close> to \<open>n_out\<close> features: its weight has \<open>n_out\<close> rows
  of \<open>n_in\<close> entries and its bias \<open>n_out\<close> entries. A \<open>SimpleNN\<close> has a first
  layer from 10 to 5 and a second from 5 to 1.
\<close>

definition layer_shaped :: "nat \<Rightarrow> nat \<Rightarrow> Linear \<Rightarrow> bool" where
  "layer_shaped n_in n_out l =
     (in_features l = n_in \<and> out_features l = n_out
      \<and> is_matrix n_out n_in (data (weight l)) \<and> length (data (bias l)) = n_out)"

definition SimpleNN_shaped :: "SimpleNN \<Rightarrow> bool" where
  "SimpleNN_shaped self = (layer_shaped 10 5 (layer1 self) \<and> layer_shaped 5 1 (layer2 self))"

text \<open>A generator that returns the same number at every draw.\<close>

definition constant_rng :: "real \<Rightarrow> rng" where
  "constant_rng v = (\<lambda>k. v)"

subsection \<open>What the claims compare the code with\<close>

text \<open>
  The framework calls one iteration of the training loop is expected to make, in order,
  with the print at the iterations whose number \<open>epoch + 1\<close> is a multiple of 20.
\<close>

definition iteration_calls :: "nat \<Rightarrow> call list" where
  "iteration_calls epoch =
     [CallForward, CallCriterion, CallZeroGrad, CallBackward, CallStep]
     @ (if (epoch + 1) mod 20 = 0 then [CallPrint (epoch + 1)] else [])"

text \<open>
  One iteration as the claim words it, on the module alone: the forward pass
  \<open>model(X)\<close>, the MSE loss between the outputs and \<open>y\<close>, zeroing of the gradients,
  back-propagation of the loss, one optimizer step. \<open>after_iterations k\<close> is the module
  after \<open>k\<close> such iterations, and \<open>loss_of_iteration k\<close> the loss computed in the
  iteration that follows them (the one with \<open>epoch = k\<close>).
\<close>

definition train_once :: "real list list \<Rightarrow> real list list \<Rightarrow> SGD \<Rightarrow> SimpleNN \<Rightarrow> py_error + SimpleNN" where
  "train_once X y opt m =
     bind (call_model m X) (\<lambda>outputs.
     bind (criterion outputs y) (\<lambda>l.
     Inr (step opt (backward l (zero_grad m)))))"

primrec after_iterations ::
  "real list list \<Rightarrow> real list list \<Rightarrow> SGD \<Rightarrow> nat \<Rightarrow> SimpleNN \<Rightarrow> py_error + SimpleNN" where
  "after_iterations X y opt 0 m = Inr m"
| "after_iterations X y opt (Suc k) m = bind (after_iterations X y opt k m) (train_once X y opt)"

definition loss_of_iteration ::
  "real list list \<Rightarrow> real list list \<Rightarrow> SGD \<Rightarrow> nat \<Rightarrow> SimpleNN \<Rightarrow> py_error + loss" where
  "loss_of_iteration X y opt k m =
     bind (after_iterations X y opt k m) (\<lambda>mk.
     bind (call_model mk X) (\<lambda>outputs.
     criterion outputs y))"

text \<open>
  The module \<open>lm0\<close> with the value of each parameter replaced by the value of the same
  parameter of \<open>m\<close>.
\<close>

definition reloaded :: "SimpleNN \<Rightarrow> SimpleNN \<Rightarrow> SimpleNN" where
  "reloaded lm0 m =
     lm0\<lparr>layer1 := (layer1 lm0)\<lparr>weight := (weight (layer1 lm0))\<lparr>data := data (weight (layer1 m))\<rparr>,
                                  bias := (bias (layer1 lm0))\<lparr>data := data (bias (layer1 m))\<rparr>\<rparr>,
          layer2 := (layer2 lm0)\<lparr>weight := (weight (layer2 lm0))\<lparr>data := data (weight (layer2 m))\<rparr>,
                                  bias := (bias (layer2 lm0))\<lparr>data := data (bias (layer2 m))\<rparr>\<rparr>\<rparr>"

text \<open>What a run leaves in a global variable, or the exception it ended with.\<close>

definition variable_after :: "string \<Rightarrow> py_error + notebook \<Rightarrow> py_error + pyval option" where
  "variable_after n r = (case r of Inl e \<Rightarrow> Inl e | Inr s \<Rightarrow> Inr (globals s n))"

section \<open>Properties\<close>

subsection \<open>Shapes of what the framework calls return\<close>

lemma is_matrix_draw: "is_matrix r c (fst (draw_matrix r c g))"
  by (simp add: is_matrix_def draw_matrix_def list_all_iff)

lemma length_draw_vector: "length (fst (draw_vector n g)) = n"
  by (simp add: draw_vector_def)

lemma Linear_init_shaped: "layer_shaped n_in n_out (fst (Linear_init n_in n_out g))"
  by (simp add: Linear_init_def layer_shaped_def split_beta Let_def is_matrix_draw length_draw_vector)

lemma SimpleNN_init_shaped: "SimpleNN_shaped (fst (SimpleNN_init g))"
  by (simp add: SimpleNN_init_def SimpleNN_shaped_def split_beta Let_def Linear_init_shaped)

lemma linear_shaped:
  assumes "layer_shaped n_in n_out l" and "is_matrix n n_in x"
  shows "Linear_forward l x = Inr (map (affine_row (data (weight l)) (data (bias l))) x)"
    and "is_matrix n n_out (map (affine_row (data (weight l)) (data (bias l))) x)"
  using assms
  by (auto simp: Linear_forward_def layer_shaped_def is_matrix_def list_all_iff affine_row_def)

lemma linear_rejects:
  "\<not> list_all (\<lambda>r. length r = in_features l) x \<Longrightarrow> Linear_forward l x = Inl RuntimeError"
  by (simp add: Linear_forward_def)

lemma is_matrix_relu: "is_matrix n c x \<Longrightarrow> is_matrix n c (relu x)"
  by (simp add: is_matrix_def relu_def list_all_iff)

lemma forward_shaped:
  assumes "SimpleNN_shaped self" and "is_matrix n 10 x"
  shows "\<exists>out. forward self x = Inr out \<and> is_matrix n 1 out"
  using assms linear_shaped[of 10 5 "layer1 self" n x]
    linear_shaped[of 5 1 "layer2 self" n "relu (map (affine_row (data (weight (layer1 self))) (data (bias (layer1 self)))) x)"]
  by (simp add: forward_def bind_def SimpleNN_shaped_def is_matrix_relu)


lemma is_matrix_table: "is_matrix r c (map (\<lambda>k. map (f k) [0..<c]) [0..<r])"
  by (simp add: is_matrix_def list_all_iff)

lemma is_matrix_map2:
  assumes "is_matrix r c a" and "is_matrix r c b"
  shows "is_matrix r c (map2 (map2 f) a b)"
  using assms
  by (auto simp: is_matrix_def list_all_iff dest!: set_zip_leftD set_zip_rightD
      elim!: in_set_zipE)

lemma linear_backward_shapes:
  "is_matrix (out_features l) (in_features l) (fst (linear_backward l x d))"
  "length (fst (snd (linear_backward l x d))) = out_features l"
  by (simp_all add: linear_backward_def is_matrix_table)

lemma update_layer_shaped:
  assumes "layer_shaped n_in n_out l" and "in_features l0 = n_in" and "out_features l0 = n_out"
  shows "layer_shaped n_in n_out
           (step_linear rate
              ((zero_grad_linear l)
                 \<lparr>weight := accumulate_matrix (weight (zero_grad_linear l)) (fst (linear_backward l0 x d)),
                  bias := accumulate_vector (bias (zero_grad_linear l)) (fst (snd (linear_backward l0 x d)))\<rparr>))"
proof -
  have gw: "is_matrix n_out n_in (fst (linear_backward l0 x d))"
    using linear_backward_shapes(1) [of l0 x d] assms(2,3) by simp
  have gb: "length (fst (snd (linear_backward l0 x d))) = n_out"
    using linear_backward_shapes(2) [of l0 x d] assms(3) by simp
  from assms(1) have w: "is_matrix n_out n_in (data (weight l))" and b: "length (data (bias l)) = n_out"
    and f: "in_features l = n_in" "out_features l = n_out"
    by (simp_all add: layer_shaped_def)
  show ?thesis
    using gw gb w b f
    by (simp add: layer_shaped_def step_linear_def zero_grad_linear_def accumulate_matrix_def
        accumulate_vector_def step_matrix_def step_vector_def is_matrix_map2)
qed

lemma update_shaped:
  assumes "SimpleNN_shaped self" and "SimpleNN_shaped (made_by (of_outputs l))"
  shows "SimpleNN_shaped (step opt (backward l (zero_grad self)))"
proof -
  let ?m0 = "made_by (of_outputs l)"
  from assms(2) have f: "in_features (layer1 ?m0) = 10" "out_features (layer1 ?m0) = 5"
    "in_features (layer2 ?m0) = 5" "out_features (layer2 ?m0) = 1"
    by (simp_all add: SimpleNN_shaped_def layer_shaped_def)
  from assms(1) have s1: "layer_shaped 10 5 (layer1 self)" and s2: "layer_shaped 5 1 (layer2 self)"
    by (simp_all add: SimpleNN_shaped_def)
  show ?thesis
    using update_layer_shaped [OF s1 f(1,2)] update_layer_shaped [OF s2 f(3,4)]
    by (simp add: SimpleNN_shaped_def step_def backward_def zero_grad_def Let_def split_beta)
qed


subsection \<open>The training loop runs to its end\<close>

lemma is_matrix_lengths: "is_matrix n c m \<Longrightarrow> map length m = replicate n c"
  by (auto simp: is_matrix_def list_all_iff map_replicate_const [symmetric] intro!: map_cong)

lemma call_model_shaped:
  assumes "SimpleNN_shaped self" and "is_matrix n 10 x"
  shows "\<exists>out. call_model self x = Inr \<lparr>tensor_value = out, made_by = self, made_from = x\<rparr>
           \<and> is_matrix n 1 out"
  using forward_shaped [OF assms] by (auto simp: call_model_def bind_def)

lemma criterion_same_shape:
  assumes "is_matrix n c (tensor_value outputs)" and "is_matrix n c y"
  shows "\<exists>v. criterion outputs y = Inr \<lparr>item = v, of_outputs = outputs, of_target = y\<rparr>"
  using assms by (simp add: criterion_def is_matrix_lengths)

lemma loop_body_ok:
  assumes "SimpleNN_shaped (t_model s)" and "is_matrix n 10 X" and "is_matrix n 1 y"
  shows "\<exists>s'. loop_body X y opt epoch s = Inr s'
           \<and> SimpleNN_shaped (t_model s')
           \<and> t_calls s' = t_calls s @ iteration_calls epoch
           \<and> map fst (t_printed s') = map fst (t_printed s) @ (if (epoch + 1) mod 20 = 0 then [epoch + 1] else [])
           \<and> t_epoch s' = Some epoch"
proof -
  obtain out where out: "call_model (t_model s) X = Inr \<lparr>tensor_value = out, made_by = t_model s, made_from = X\<rparr>"
    and mo: "is_matrix n 1 out"
    using call_model_shaped [OF assms(1,2)] by blast
  let ?o = "\<lparr>tensor_value = out, made_by = t_model s, made_from = X\<rparr>"
  obtain v where l: "criterion ?o y = Inr \<lparr>item = v, of_outputs = ?o, of_target = y\<rparr>"
    using criterion_same_shape [of n 1 ?o y] mo assms(3) by auto
  let ?l = "\<lparr>item = v, of_outputs = ?o, of_target = y\<rparr>"
  have sh: "SimpleNN_shaped (step opt (backward ?l (zero_grad (t_model s))))"
    using update_shaped [of "t_model s" ?l opt] assms(1) by simp
  show ?thesis
    using out l sh by (simp add: loop_body_def bind_def Let_def iteration_calls_def)
qed

lemma for_loop_ok:
  assumes "SimpleNN_shaped (t_model s)" and "is_matrix n 10 X" and "is_matrix n 1 y"
  shows "\<exists>s'. for_loop (loop_body X y opt) es s = Inr s'
           \<and> SimpleNN_shaped (t_model s')
           \<and> t_calls s' = t_calls s @ concat (map iteration_calls es)
           \<and> map fst (t_printed s') = map fst (t_printed s) @ map Suc (filter (\<lambda>e. (e + 1) mod 20 = 0) es)
           \<and> t_epoch s' = (if es = [] then t_epoch s else Some (last es))"
  using assms(1)
proof (induction es arbitrary: s)
  case Nil
  then show ?case by simp
next
  case (Cons e es)
  obtain s1 where s1: "loop_body X y opt e s = Inr s1" "SimpleNN_shaped (t_model s1)"
    "t_calls s1 = t_calls s @ iteration_calls e"
    "map fst (t_printed s1) = map fst (t_printed s) @ (if (e + 1) mod 20 = 0 then [e + 1] else [])"
    "t_epoch s1 = Some e"
    using loop_body_ok [OF Cons.prems assms(2,3), of opt e] by blast
  obtain s2 where s2: "for_loop (loop_body X y opt) es s1 = Inr s2" "SimpleNN_shaped (t_model s2)"
    "t_calls s2 = t_calls s1 @ concat (map iteration_calls es)"
    "map fst (t_printed s2) = map fst (t_printed s1) @ map Suc (filter (\<lambda>e. (e + 1) mod 20 = 0) es)"
    "t_epoch s2 = (if es = [] then t_epoch s1 else Some (last es))"
    using Cons.IH [OF s1(2)] by blast
  show ?case
    using s1 s2 by (simp add: bind_def)
qed

lemma printed_epochs: "map Suc (filter (\<lambda>e. Suc e mod 20 = 0) [0..<100]) = [20, 40, 60, 80, 100]"
  by code_simp

subsection \<open>The cells, one after the other\<close>

lemmas cell_simps = bind_def lookup_def need_def assign_def print_def Let_def split_beta

lemma first_six_cells:
  "\<exists>s6. run [cell1, cell2, cell3, cell4, cell5, cell6] (fresh_kernel disk g mps cuda) = Inr s6
      \<and> globals s6 ''torch'' = Some (PyModule ''torch'')
      \<and> globals s6 ''nn'' = Some (PyModule ''torch.nn'')
      \<and> globals s6 ''SimpleNN'' = Some (PyClass ''SimpleNN'')
      \<and> globals s6 ''X'' = None
      \<and> calls s6 = [] \<and> file_ops s6 = [] \<and> files s6 = disk
      \<and> generator s6 = (\<lambda>k. g (k + 67))
      \<and> filter (\<lambda>(label, vs). label = ''Epoch'') (stdout s6) = []"
  by (simp add: cell1_def cell2_def cell3_def cell4_def cell5_def cell6_def fresh_kernel_def
      cell_simps tensor_add_def tensor_mul_def matmul_def elementwise_def draw_matrix_def
      SimpleNN_init_def Linear_init_def draw_vector_def add.commute add.left_commute)

lemma for_loop_append:
  "for_loop body (es @ fs) s = bind (for_loop body es s) (for_loop body fs)"
  by (induction es arbitrary: s) (auto simp: bind_def split: sum.splits)

lemma loop_body_refines:
  assumes "SimpleNN_shaped (t_model s)" and "is_matrix n 10 X" and "is_matrix n 1 y"
  shows "\<exists>outputs l s'. call_model (t_model s) X = Inr outputs
           \<and> criterion outputs y = Inr l
           \<and> of_outputs l = outputs
           \<and> loop_body X y opt epoch s = Inr s'
           \<and> t_outputs s' = Some outputs \<and> t_loss s' = Some l \<and> t_epoch s' = Some epoch
           \<and> t_model s' = step opt (backward l (zero_grad (t_model s)))
           \<and> train_once X y opt (t_model s) = Inr (t_model s')
           \<and> SimpleNN_shaped (t_model s')
           \<and> t_calls s' = t_calls s @ iteration_calls epoch
           \<and> t_printed s' = t_printed s @ (if (epoch + 1) mod 20 = 0 then [(epoch + 1, item l)] else [])"
proof -
  obtain out where out: "call_model (t_model s) X = Inr \<lparr>tensor_value = out, made_by = t_model s, made_from = X\<rparr>"
    and mo: "is_matrix n 1 out"
    using call_model_shaped [OF assms(1,2)] by blast
  let ?o = "\<lparr>tensor_value = out, made_by = t_model s, made_from = X\<rparr>"
  obtain v where l: "criterion ?o y = Inr \<lparr>item = v, of_outputs = ?o, of_target = y\<rparr>"
    using criterion_same_shape [of n 1 ?o y] mo assms(3) by auto
  let ?l = "\<lparr>item = v, of_outputs = ?o, of_target = y\<rparr>"
  have sh: "SimpleNN_shaped (step opt (backward ?l (zero_grad (t_model s))))"
    using update_shaped [of "t_model s" ?l opt] assms(1) by simp
  show ?thesis
    using out l sh
    by (simp add: loop_body_def train_once_def bind_def Let_def iteration_calls_def)
qed

lemma training_refines:
  fixes X y opt m0
  defines "start \<equiv> \<lparr>t_model = m0, t_outputs = None, t_loss = None, t_epoch = None,
                      t_printed = [], t_calls = []\<rparr>"
  assumes m0: "SimpleNN_shaped m0" and X: "is_matrix n 10 X" and y: "is_matrix n 1 y"
  shows "\<exists>s'. for_loop (loop_body X y opt) [0..<b] start = Inr s'
           \<and> after_iterations X y opt b m0 = Inr (t_model s')
           \<and> SimpleNN_shaped (t_model s')
           \<and> t_calls s' = concat (map iteration_calls [0..<b])
           \<and> list_all2 (\<lambda>p e. fst p = Suc e
                  \<and> (\<exists>l. loss_of_iteration X y opt e m0 = Inr l \<and> snd p = item l))
                (t_printed s') (filter (\<lambda>e. Suc e mod 20 = 0) [0..<b])
           \<and> (0 < b \<longrightarrow> t_epoch s' = Some (b - 1)
                \<and> (\<exists>l. loss_of_iteration X y opt (b - 1) m0 = Inr l
                       \<and> t_loss s' = Some l \<and> t_outputs s' = Some (of_outputs l)))"
proof (induction b)
  case 0
  show ?case using m0 by (simp add: start_def)
next
  case (Suc b)
  then obtain s1 where s1: "for_loop (loop_body X y opt) [0..<b] start = Inr s1"
    "after_iterations X y opt b m0 = Inr (t_model s1)"
    "SimpleNN_shaped (t_model s1)"
    "t_calls s1 = concat (map iteration_calls [0..<b])"
    "list_all2 (\<lambda>p e. fst p = Suc e
                  \<and> (\<exists>l. loss_of_iteration X y opt e m0 = Inr l \<and> snd p = item l))
                (t_printed s1) (filter (\<lambda>e. Suc e mod 20 = 0) [0..<b])"
    by (elim exE conjE) (rule that)
  from loop_body_refines [OF s1(3) X y, of opt b]
  obtain outputs l s' where st: "call_model (t_model s1) X = Inr outputs"
    "criterion outputs y = Inr l" "of_outputs l = outputs"
    "loop_body X y opt b s1 = Inr s'"
    "t_outputs s' = Some outputs" "t_loss s' = Some l" "t_epoch s' = Some b"
    "train_once X y opt (t_model s1) = Inr (t_model s')"
    "SimpleNN_shaped (t_model s')"
    "t_calls s' = t_calls s1 @ iteration_calls b"
    "t_printed s' = t_printed s1 @ (if (b + 1) mod 20 = 0 then [(b + 1, item l)] else [])"
    by (elim exE conjE) (rule that)
  have run: "for_loop (loop_body X y opt) [0..<Suc b] start = Inr s'"
    using s1(1) st(4) by (simp add: for_loop_append bind_def)
  have after: "after_iterations X y opt (Suc b) m0 = Inr (t_model s')"
    using s1(2) st(8) by (simp add: bind_def)
  have lb: "loss_of_iteration X y opt b m0 = Inr l"
    using s1(2) st(1,2) by (simp add: loss_of_iteration_def bind_def)
  have calls: "t_calls s' = concat (map iteration_calls [0..<Suc b])"
    using s1(4) st(10) by simp
  have pr: "list_all2 (\<lambda>p e. fst p = Suc e
                  \<and> (\<exists>l. loss_of_iteration X y opt e m0 = Inr l \<and> snd p = item l))
                (t_printed s') (filter (\<lambda>e. Suc e mod 20 = 0) [0..<Suc b])"
    using s1(5) lb st(11) by (auto intro!: list_all2_appendI)
  have last: "t_epoch s' = Some (Suc b - 1)
                \<and> (\<exists>l. loss_of_iteration X y opt (Suc b - 1) m0 = Inr l
                       \<and> t_loss s' = Some l \<and> t_outputs s' = Some (of_outputs l))"
    using st(3,5,6,7) lb by simp
  show ?case
    using run after st(9) calls pr last by blast
qed

lemma printing_epochs: "filter (\<lambda>e. Suc e mod 20 = 0) [0..<100] = [19, 39, 59, 79, 99]"
  by code_simp

lemma training_loop_refines:
  assumes "SimpleNN_shaped m0" and "is_matrix n 10 X" and "is_matrix n 1 y"
  shows "\<exists>t mT l20 l40 l60 l80 l100.
           training_loop X y opt
              \<lparr>t_model = m0, t_outputs = None, t_loss = None, t_epoch = None,
               t_printed = [], t_calls = []\<rparr> = Inr t
           \<and> after_iterations X y opt 100 m0 = Inr mT \<and> t_model t = mT
           \<and> SimpleNN_shaped mT
           \<and> loss_of_iteration X y opt 19 m0 = Inr l20
           \<and> loss_of_iteration X y opt 39 m0 = Inr l40
           \<and> loss_of_iteration X y opt 59 m0 = Inr l60
           \<and> loss_of_iteration X y opt 79 m0 = Inr l80
           \<and> loss_of_iteration X y opt 99 m0 = Inr l100
           \<and> t_calls t = concat (map iteration_calls [0..<100])
           \<and> t_printed t = [(20, item l20), (40, item l40), (60, item l60), (80, item l80),
                             (100, item l100)]
           \<and> t_epoch t = Some 99 \<and> t_loss t = Some l100 \<and> t_outputs t = Some (of_outputs l100)"
proof -
  from training_refines [OF assms, where opt = opt and b = 100]
  obtain t where t: "for_loop (loop_body X y opt) [0..<100]
              \<lparr>t_model = m0, t_outputs = None, t_loss = None, t_epoch = None,
               t_printed = [], t_calls = []\<rparr> = Inr t"
    "after_iterations X y opt 100 m0 = Inr (t_model t)"
    "SimpleNN_shaped (t_model t)"
    "t_calls t = concat (map iteration_calls [0..<100])"
    "list_all2 (\<lambda>p e. fst p = Suc e
                  \<and> (\<exists>l. loss_of_iteration X y opt e m0 = Inr l \<and> snd p = item l))
                (t_printed t) (filter (\<lambda>e. Suc e mod 20 = 0) [0..<100])"
    "0 < (100::nat) \<longrightarrow> t_epoch t = Some (100 - 1)
                \<and> (\<exists>l. loss_of_iteration X y opt (100 - 1) m0 = Inr l
                       \<and> t_loss t = Some l \<and> t_outputs t = Some (of_outputs l))"
    by (elim exE conjE) (rule that)
  from t(6) obtain l100 where last: "t_epoch t = Some 99"
    "loss_of_iteration X y opt 99 m0 = Inr l100" "t_loss t = Some l100"
    "t_outputs t = Some (of_outputs l100)"
    by auto
  from t(5) obtain l20 l40 l60 l80 l where pr:
    "loss_of_iteration X y opt 19 m0 = Inr l20" "loss_of_iteration X y opt 39 m0 = Inr l40"
    "loss_of_iteration X y opt 59 m0 = Inr l60" "loss_of_iteration X y opt 79 m0 = Inr l80"
    "loss_of_iteration X y opt 99 m0 = Inr l"
    "t_printed t = [(20, item l20), (40, item l40), (60, item l60), (80, item l80), (100, item l)]"
    unfolding printing_epochs
    by (auto simp: list_all2_Cons2 prod_eq_iff)
  from pr(5) last(2) have "l = l100" by simp
  with pr last t show ?thesis
    by (simp add: training_loop_def)
qed


lemma cell7_ok:
  fixes s
  defines "X \<equiv> fst (draw_matrix 100 10 (generator s))"
  defines "y \<equiv> map (\<lambda>row. [sum_list row * 0.1]) X"
  defines "m0 \<equiv> fst (SimpleNN_init (snd (draw_matrix 100 10 (generator s))))"
  assumes a: "globals s ''torch'' = Some (PyModule ''torch'')"
    "globals s ''SimpleNN'' = Some (PyClass ''SimpleNN'')"
    "globals s ''nn'' = Some (PyModule ''torch.nn'')"
  shows "\<exists>mT l20 l40 l60 l80 l100.
           after_iterations X y \<lparr>lr = 0.01\<rparr> 100 m0 = Inr mT \<and> SimpleNN_shaped mT
         \<and> loss_of_iteration X y \<lparr>lr = 0.01\<rparr> 19 m0 = Inr l20
         \<and> loss_of_iteration X y \<lparr>lr = 0.01\<rparr> 39 m0 = Inr l40
         \<and> loss_of_iteration X y \<lparr>lr = 0.01\<rparr> 59 m0 = Inr l60
         \<and> loss_of_iteration X y \<lparr>lr = 0.01\<rparr> 79 m0 = Inr l80
         \<and> loss_of_iteration X y \<lparr>lr = 0.01\<rparr> 99 m0 = Inr l100
         \<and> cell7 s = Inr (s\<lparr>globals := (globals s)
              (''optim'' \<mapsto> PyModule ''torch.optim'',
               ''X'' \<mapsto> FloatTensor (T2 X),
               ''y'' \<mapsto> FloatTensor (T2 y),
               ''criterion'' \<mapsto> MSELoss,
               ''optimizer'' \<mapsto> Optimizer \<lparr>lr = 0.01\<rparr>,
               ''model'' \<mapsto> Module mT,
               ''epoch'' \<mapsto> PyInt 99,
               ''outputs'' \<mapsto> Outputs (of_outputs l100),
               ''loss'' \<mapsto> Loss l100),
             generator := snd (SimpleNN_init (snd (draw_matrix 100 10 (generator s)))),
             stdout := stdout s @
               [(''Epoch'', [PyInt 20, PyFloat (item l20)]), (''Epoch'', [PyInt 40, PyFloat (item l40)]),
                (''Epoch'', [PyInt 60, PyFloat (item l60)]), (''Epoch'', [PyInt 80, PyFloat (item l80)]),
                (''Epoch'', [PyInt 100, PyFloat (item l100)])],
             calls := calls s @ concat (map iteration_calls [0..<100])\<rparr>)"
proof -
  have mX: "is_matrix 100 10 X" unfolding X_def by (rule is_matrix_draw)
  then have my: "is_matrix 100 1 y" by (simp add: y_def is_matrix_def list_all_iff)
  have sh: "SimpleNN_shaped m0" unfolding m0_def by (rule SimpleNN_init_shaped)
  from training_loop_refines [OF sh mX my, where opt = "\<lparr>lr = 0.01\<rparr>"]
  obtain t mT l20 l40 l60 l80 l100 where t: "training_loop X y \<lparr>lr = 0.01\<rparr>
              \<lparr>t_model = m0, t_outputs = None, t_loss = None, t_epoch = None,
               t_printed = [], t_calls = []\<rparr> = Inr t"
    "after_iterations X y \<lparr>lr = 0.01\<rparr> 100 m0 = Inr mT" "t_model t = mT"
    "SimpleNN_shaped mT"
    "loss_of_iteration X y \<lparr>lr = 0.01\<rparr> 19 m0 = Inr l20"
    "loss_of_iteration X y \<lparr>lr = 0.01\<rparr> 39 m0 = Inr l40"
    "loss_of_iteration X y \<lparr>lr = 0.01\<rparr> 59 m0 = Inr l60"
    "loss_of_iteration X y \<lparr>lr = 0.01\<rparr> 79 m0 = Inr l80"
    "loss_of_iteration X y \<lparr>lr = 0.01\<rparr> 99 m0 = Inr l100"
    "t_calls t = concat (map iteration_calls [0..<100])"
    "t_printed t = [(20, item l20), (40, item l40), (60, item l60), (80, item l80),
                             (100, item l100)]"
    "t_epoch t = Some 99" "t_loss t = Some l100" "t_outputs t = Some (of_outputs l100)"
    by (elim exE conjE) (rule that)
  have c7: "cell7 s = Inr (s\<lparr>globals := (globals s)
              (''optim'' \<mapsto> PyModule ''torch.optim'',
               ''X'' \<mapsto> FloatTensor (T2 X),
               ''y'' \<mapsto> FloatTensor (T2 y),
               ''criterion'' \<mapsto> MSELoss,
               ''optimizer'' \<mapsto> Optimizer \<lparr>lr = 0.01\<rparr>,
               ''model'' \<mapsto> Module mT,
               ''epoch'' \<mapsto> PyInt 99,
               ''outputs'' \<mapsto> Outputs (of_outputs l100),
               ''loss'' \<mapsto> Loss l100),
             generator := snd (SimpleNN_init (snd (draw_matrix 100 10 (generator s)))),
             stdout := stdout s @
               [(''Epoch'', [PyInt 20, PyFloat (item l20)]), (''Epoch'', [PyInt 40, PyFloat (item l40)]),
                (''Epoch'', [PyInt 60, PyFloat (item l60)]), (''Epoch'', [PyInt 80, PyFloat (item l80)]),
                (''Epoch'', [PyInt 100, PyFloat (item l100)])],
             calls := calls s @ concat (map iteration_calls [0..<100])\<rparr>)"
    using a t(1,3,10-14) unfolding X_def y_def m0_def
    by (simp add: cell7_def cell_simps assign_opt_def)
  show ?thesis
    by (intro exI conjI, rule t(2), rule t(4), rule t(5), rule t(6), rule t(7), rule t(8),
        rule t(9), rule c7)
qed

lemma cell8_ok:
  assumes "globals s ''X'' = Some (FloatTensor (T2 X))"
    and "globals s ''y'' = Some (FloatTensor (T2 y))" and "X \<noteq> []"
  shows "cell8 s = Inr (s\<lparr>globals := (globals s)
            (''Dataset'' \<mapsto> PyClass ''Dataset'',
             ''DataLoader'' \<mapsto> PyClass ''DataLoader'',
             ''CustomDataset'' \<mapsto> PyClass ''CustomDataset'',
             ''dataset'' \<mapsto> Dataset (CustomDataset_init X y),
             ''dataloader'' \<mapsto> DataLoader (CustomDataset_init X y) 32 True)\<rparr>)"
  using assms by (simp add: cell8_def cell_simps as_matrix_def len_def CustomDataset_init_def)

lemma load_state_dict_roundtrip:
  assumes "SimpleNN_shaped m" and "SimpleNN_shaped lm0"
  shows "load_state_dict lm0 (state_dict m) = Inr (reloaded lm0 m)"
proof -
  have "map length (data (weight (layer1 lm0))) = map length (data (weight (layer1 m)))"
    "map length (data (weight (layer2 lm0))) = map length (data (weight (layer2 m)))"
    "length (data (bias (layer1 lm0))) = length (data (bias (layer1 m)))"
    "length (data (bias (layer2 lm0))) = length (data (bias (layer2 m)))"
    using assms by (auto simp: SimpleNN_shaped_def layer_shaped_def dest!: is_matrix_lengths)
  then show ?thesis
    by (simp add: load_state_dict_def state_dict_def reloaded_def)
qed

lemma reloaded_props:
  assumes "SimpleNN_shaped m" and "SimpleNN_shaped lm0"
  shows "state_dict (reloaded lm0 m) = state_dict m" and "SimpleNN_shaped (reloaded lm0 m)"
  using assms by (simp_all add: state_dict_def reloaded_def SimpleNN_shaped_def layer_shaped_def)

lemma cell9_ok:
  assumes "globals s ''torch'' = Some (PyModule ''torch'')"
    and "globals s ''SimpleNN'' = Some (PyClass ''SimpleNN'')"
    and "globals s ''model'' = Some (Module m)" and "SimpleNN_shaped m"
  shows "cell9 s = Inr (s\<lparr>globals := (globals s)
            (''loaded_model'' \<mapsto> Module (reloaded (fst (SimpleNN_init (generator s))) m)),
           generator := snd (SimpleNN_init (generator s)),
           files := (files s)(''model.pth'' \<mapsto> state_dict m),
           file_ops := file_ops s @ [FileWrite ''model.pth'', FileRead ''model.pth'']\<rparr>)"
  using assms load_state_dict_roundtrip [OF assms(4) SimpleNN_init_shaped, of "generator s"]
  by (simp add: cell9_def save_model_def load_model_def torch_save_def torch_load_def
      cell_simps as_module_def)

lemma cell10_ok:
  assumes "globals s ''model'' = Some (Module m)" and "SimpleNN_shaped m"
    and "globals s ''torch'' = Some (PyModule ''torch'')"
    and "globals s ''X'' = Some (FloatTensor (T2 X))" and "is_matrix n 10 X"
  shows "\<exists>out. cell10 s = Inr (s\<lparr>globals := (globals s)
            (''model'' \<mapsto> Module (m\<lparr>training := False\<rparr>),
             ''test_output'' \<mapsto> FloatTensor (T2 out))\<rparr>)"
proof -
  have "SimpleNN_shaped (m\<lparr>training := False\<rparr>)"
    using assms(2) by (simp add: SimpleNN_shaped_def)
  from forward_shaped [OF this assms(5)]
  obtain out where "forward (m\<lparr>training := False\<rparr>) X = Inr out" by blast
  then have "cell10 s = Inr (s\<lparr>globals := (globals s)
            (''model'' \<mapsto> Module (m\<lparr>training := False\<rparr>),
             ''test_output'' \<mapsto> FloatTensor (T2 out))\<rparr>)"
    using assms by (simp add: cell10_def cell_simps as_module_def as_matrix_def)
  then show ?thesis by (rule exI)
qed

lemma cell11_ok:
  assumes "globals s ''nn'' = Some (PyModule ''torch.nn'')"
  shows "\<exists>s'. cell11 s = Inr s' \<and> file_ops s' = file_ops s \<and> calls s' = calls s
           \<and> files s' = files s \<and> stdout s' = stdout s
           \<and> globals s' ''model'' = globals s ''model''
           \<and> globals s' ''loaded_model'' = globals s ''loaded_model''
           \<and> globals s' ''dataset'' = globals s ''dataset''"
  using assms by (simp add: cell11_def cell_simps)

lemma run_append: "run (cs @ ds) s = bind (run cs s) (run ds)"
  by (induction cs arbitrary: s) (auto simp: bind_def split: sum.splits)

lemma notebook_run:
  fixes disk g mps cuda
  defines "X \<equiv> fst (draw_matrix 100 10 (\<lambda>k. g (k + 67)))"
  defines "y \<equiv> map (\<lambda>row. [sum_list row * 0.1]) X"
  defines "m0 \<equiv> fst (SimpleNN_init (snd (draw_matrix 100 10 (\<lambda>k. g (k + 67)))))"
  shows "\<exists>s6 s7 s8 s9 s10 s11 m lm l20 l40 l60 l80 l100.
      run [cell1, cell2, cell3, cell4, cell5, cell6] (fresh_kernel disk g mps cuda) = Inr s6
    \<and> cell7 s6 = Inr s7 \<and> cell8 s7 = Inr s8 \<and> cell9 s8 = Inr s9
    \<and> cell10 s9 = Inr s10 \<and> cell11 s10 = Inr s11
    \<and> globals s6 ''X'' = None
    \<and> globals s7 ''X'' = Some (FloatTensor (T2 X))
    \<and> globals s7 ''y'' = Some (FloatTensor (T2 y))
    \<and> globals s7 ''model'' = Some (Module m) \<and> SimpleNN_shaped m
    \<and> after_iterations X y \<lparr>lr = 0.01\<rparr> 100 m0 = Inr m
    \<and> loss_of_iteration X y \<lparr>lr = 0.01\<rparr> 19 m0 = Inr l20
    \<and> loss_of_iteration X y \<lparr>lr = 0.01\<rparr> 39 m0 = Inr l40
    \<and> loss_of_iteration X y \<lparr>lr = 0.01\<rparr> 59 m0 = Inr l60
    \<and> loss_of_iteration X y \<lparr>lr = 0.01\<rparr> 79 m0 = Inr l80
    \<and> loss_of_iteration X y \<lparr>lr = 0.01\<rparr> 99 m0 = Inr l100
    \<and> globals s7 ''epoch'' = Some (PyInt 99)
    \<and> globals s7 ''outputs'' = Some (Outputs (of_outputs l100))
    \<and> globals s7 ''loss'' = Some (Loss l100)
    \<and> calls s7 = concat (map iteration_calls [0..<100])
    \<and> globals s8 ''dataset'' = Some (Dataset (CustomDataset_init X y))
    \<and> globals s9 ''model'' = Some (Module m)
    \<and> globals s9 ''loaded_model'' = Some (Module lm)
    \<and> state_dict lm = state_dict m \<and> SimpleNN_shaped lm
    \<and> files s9 ''model.pth'' = Some (state_dict m)
    \<and> file_ops s8 = []
    \<and> file_ops s9 = [FileWrite ''model.pth'', FileRead ''model.pth'']
    \<and> file_ops s11 = [FileWrite ''model.pth'', FileRead ''model.pth'']
    \<and> calls s11 = concat (map iteration_calls [0..<100])
    \<and> globals s11 ''dataset'' = Some (Dataset (CustomDataset_init X y))
    \<and> filter (\<lambda>(label, vs). label = ''Epoch'') (stdout s11) =
          [(''Epoch'', [PyInt 20, PyFloat (item l20)]), (''Epoch'', [PyInt 40, PyFloat (item l40)]),
           (''Epoch'', [PyInt 60, PyFloat (item l60)]), (''Epoch'', [PyInt 80, PyFloat (item l80)]),
           (''Epoch'', [PyInt 100, PyFloat (item l100)])]"
proof -
  obtain s6 where s6: "run [cell1, cell2, cell3, cell4, cell5, cell6] (fresh_kernel disk g mps cuda) = Inr s6"
    "globals s6 ''torch'' = Some (PyModule ''torch'')"
    "globals s6 ''nn'' = Some (PyModule ''torch.nn'')"
    "globals s6 ''SimpleNN'' = Some (PyClass ''SimpleNN'')"
    "globals s6 ''X'' = None"
    "calls s6 = []" "file_ops s6 = []" "files s6 = disk"
    "generator s6 = (\<lambda>k. g (k + 67))"
    "filter (\<lambda>(label, vs). label = ''Epoch'') (stdout s6) = []"
    using first_six_cells [of disk g mps cuda] by (elim exE conjE) (rule that)
  from cell7_ok [OF s6(2,4,3)]
  obtain m l20 l40 l60 l80 l100 where tr:
    "after_iterations X y \<lparr>lr = 0.01\<rparr> 100 m0 = Inr m"
    "loss_of_iteration X y \<lparr>lr = 0.01\<rparr> 19 m0 = Inr l20"
    "loss_of_iteration X y \<lparr>lr = 0.01\<rparr> 39 m0 = Inr l40"
    "loss_of_iteration X y \<lparr>lr = 0.01\<rparr> 59 m0 = Inr l60"
    "loss_of_iteration X y \<lparr>lr = 0.01\<rparr> 79 m0 = Inr l80"
    "loss_of_iteration X y \<lparr>lr = 0.01\<rparr> 99 m0 = Inr l100"
    and m: "SimpleNN_shaped m"
    and s7: "cell7 s6 = Inr (s6\<lparr>globals := (globals s6)
              (''optim'' \<mapsto> PyModule ''torch.optim'',
               ''X'' \<mapsto> FloatTensor (T2 X),
               ''y'' \<mapsto> FloatTensor (T2 y),
               ''criterion'' \<mapsto> MSELoss,
               ''optimizer'' \<mapsto> Optimizer \<lparr>lr = 0.01\<rparr>,
               ''model'' \<mapsto> Module m,
               ''epoch'' \<mapsto> PyInt 99,
               ''outputs'' \<mapsto> Outputs (of_outputs l100),
               ''loss'' \<mapsto> Loss l100),
             generator := snd (SimpleNN_init (snd (draw_matrix 100 10 (\<lambda>k. g (k + 67))))),
             stdout := stdout s6 @
               [(''Epoch'', [PyInt 20, PyFloat (item l20)]), (''Epoch'', [PyInt 40, PyFloat (item l40)]),
                (''Epoch'', [PyInt 60, PyFloat (item l60)]), (''Epoch'', [PyInt 80, PyFloat (item l80)]),
                (''Epoch'', [PyInt 100, PyFloat (item l100)])],
             calls := calls s6 @ concat (map iteration_calls [0..<100])\<rparr>)"
    unfolding s6(9) X_def [symmetric] y_def [symmetric] m0_def [symmetric]
    by (elim exE conjE) (rule that)
  define s7 where "s7 = projr (cell7 s6)"
  have c7: "cell7 s6 = Inr s7" using s7 by (simp add: s7_def)
  have g7: "globals s7 ''X'' = Some (FloatTensor (T2 X))" "globals s7 ''y'' = Some (FloatTensor (T2 y))"
    "globals s7 ''model'' = Some (Module m)" "globals s7 ''torch'' = Some (PyModule ''torch'')"
    "globals s7 ''SimpleNN'' = Some (PyClass ''SimpleNN'')" "globals s7 ''nn'' = Some (PyModule ''torch.nn'')"
    "globals s7 ''epoch'' = Some (PyInt 99)" "globals s7 ''outputs'' = Some (Outputs (of_outputs l100))"
    "globals s7 ''loss'' = Some (Loss l100)"
    and o7: "calls s7 = concat (map iteration_calls [0..<100])" "file_ops s7 = []" "files s7 = disk"
    and out7: "stdout s7 = stdout s6 @
               [(''Epoch'', [PyInt 20, PyFloat (item l20)]), (''Epoch'', [PyInt 40, PyFloat (item l40)]),
                (''Epoch'', [PyInt 60, PyFloat (item l60)]), (''Epoch'', [PyInt 80, PyFloat (item l80)]),
                (''Epoch'', [PyInt 100, PyFloat (item l100)])]"
    using s6 by (simp_all add: s7_def s7)
  have mX: "is_matrix 100 10 X" by (simp add: X_def is_matrix_draw)
  then have nX: "X \<noteq> []" by (auto simp: is_matrix_def)
  define s8 where "s8 = projr (cell8 s7)"
  have c8: "cell8 s7 = Inr s8" using cell8_ok [OF g7(1,2) nX] by (simp add: s8_def)
  have g8: "globals s8 ''dataset'' = Some (Dataset (CustomDataset_init X y))"
    "globals s8 ''X'' = Some (FloatTensor (T2 X))"
    "globals s8 ''model'' = Some (Module m)" "globals s8 ''torch'' = Some (PyModule ''torch'')"
    "globals s8 ''SimpleNN'' = Some (PyClass ''SimpleNN'')" "globals s8 ''nn'' = Some (PyModule ''torch.nn'')"
    and o8: "calls s8 = calls s7" "file_ops s8 = []" "stdout s8 = stdout s7"
    using cell8_ok [OF g7(1,2) nX] g7 o7 by (simp_all add: s8_def)
  let ?lm = "reloaded (fst (SimpleNN_init (generator s8))) m"
  define s9 where "s9 = projr (cell9 s8)"
  note c9' = cell9_ok [OF g8(4,5,3) m]
  have c9: "cell9 s8 = Inr s9" using c9' by (simp add: s9_def)
  have g9: "globals s9 ''dataset'' = Some (Dataset (CustomDataset_init X y))"
    "globals s9 ''X'' = Some (FloatTensor (T2 X))"
    "globals s9 ''model'' = Some (Module m)" "globals s9 ''torch'' = Some (PyModule ''torch'')"
    "globals s9 ''nn'' = Some (PyModule ''torch.nn'')"
    "globals s9 ''loaded_model'' = Some (Module ?lm)"
    and o9: "calls s9 = calls s7" "file_ops s9 = [FileWrite ''model.pth'', FileRead ''model.pth'']"
    "stdout s9 = stdout s7" "files s9 ''model.pth'' = Some (state_dict m)"
    using c9' g8 o8 by (simp_all add: s9_def)
  from cell10_ok [OF g9(3) m g9(4,2) mX]
  obtain tout where c10': "cell10 s9 = Inr (s9\<lparr>globals := (globals s9)
            (''model'' \<mapsto> Module (m\<lparr>training := False\<rparr>),
             ''test_output'' \<mapsto> FloatTensor (T2 tout))\<rparr>)" by (elim exE)
  define s10 where "s10 = projr (cell10 s9)"
  have c10: "cell10 s9 = Inr s10" using c10' by (simp add: s10_def)
  have g10: "globals s10 ''dataset'' = Some (Dataset (CustomDataset_init X y))"
    "globals s10 ''nn'' = Some (PyModule ''torch.nn'')"
    and o10: "calls s10 = calls s7" "file_ops s10 = [FileWrite ''model.pth'', FileRead ''model.pth'']"
    "stdout s10 = stdout s7"
    using c10' g9 o9 by (simp_all add: s10_def)
  from cell11_ok [OF g10(2)]
  obtain s11 where c11: "cell11 s10 = Inr s11" and o11: "file_ops s11 = file_ops s10"
    "calls s11 = calls s10" "stdout s11 = stdout s10" "globals s11 ''dataset'' = globals s10 ''dataset''"
    by (elim exE conjE) (rule that)
  have lines: "filter (\<lambda>(label, vs). label = ''Epoch'') (stdout s11) =
          [(''Epoch'', [PyInt 20, PyFloat (item l20)]), (''Epoch'', [PyInt 40, PyFloat (item l40)]),
           (''Epoch'', [PyInt 60, PyFloat (item l60)]), (''Epoch'', [PyInt 80, PyFloat (item l80)]),
           (''Epoch'', [PyInt 100, PyFloat (item l100)])]"
    using o11(3) o10(3) out7 s6(10) by simp
  have rl: "state_dict ?lm = state_dict m" "SimpleNN_shaped ?lm"
    using reloaded_props [OF m SimpleNN_init_shaped] by simp_all
  show ?thesis
    apply (rule exI [of _ s6], rule exI [of _ s7], rule exI [of _ s8], rule exI [of _ s9])
    apply (rule exI [of _ s10], rule exI [of _ s11], rule exI [of _ m], rule exI [of _ ?lm])
    apply (rule exI [of _ l20], rule exI [of _ l40], rule exI [of _ l60], rule exI [of _ l80],
        rule exI [of _ l100])
    using s6(1,5) c7 c8 c9 c10 c11 g7(1,2,3,7,8,9) m tr o7(1) g8(1) g9(3,6) rl o9(4) o8(2) o9(2) o10 o11
      g10(1) lines
    by simp
qed

subsection \<open>When a snippet raises\<close>





lemma need_cases:
  "need s n v = Inr () \<longleftrightarrow> globals s n = Some v"
  "need s n v = Inl e \<longleftrightarrow> (globals s n = None \<and> e = NameError n)
      \<or> (\<exists>w. globals s n = Some w \<and> w \<noteq> v \<and> e = NotModelled n)"
  by (auto simp: need_def split: option.splits)

lemma need_frame:
  "globals s' n = globals s n \<Longrightarrow> need s' n v = need s n v"
  by (simp add: need_def)




















subsection \<open>Counts, modes and the data of a run\<close>

lemma steps_count: "length (filter (\<lambda>c. c = CallStep) (concat (map iteration_calls [0..<100]))) = 100"
  by code_simp

lemma example_model:
  "fst (SimpleNN_init (constant_rng v)) =
     \<lparr>layer1 = \<lparr>in_features = 10, out_features = 5,
                 weight = \<lparr>data = replicate 5 (replicate 10 v), grad = None\<rparr>,
                 bias = \<lparr>data = replicate 5 v, grad = None\<rparr>\<rparr>,
      layer2 = \<lparr>in_features = 5, out_features = 1,
                 weight = \<lparr>data = [replicate 5 v], grad = None\<rparr>,
                 bias = \<lparr>data = [v], grad = None\<rparr>\<rparr>,
      training = True\<rparr>"
  by (simp add: SimpleNN_init_def Linear_init_def draw_matrix_def draw_vector_def
      constant_rng_def Let_def map_replicate_const)

lemma loop_body_mode:
  assumes "loop_body X y opt epoch s = Inr s'"
  shows "training (t_model s') = training (t_model s)"
  using assms
  by (auto simp: loop_body_def bind_def Let_def step_def backward_def zero_grad_def split_beta
      split: sum.splits if_splits)

lemma for_loop_mode:
  assumes "for_loop (loop_body X y opt) es s = Inr s'"
  shows "training (t_model s') = training (t_model s)"
  using assms
proof (induction es arbitrary: s)
  case Nil
  then show ?case by simp
next
  case (Cons e es)
  from Cons.prems obtain s1 where s1: "loop_body X y opt e s = Inr s1"
    and rest: "for_loop (loop_body X y opt) es s1 = Inr s'"
    by (auto simp: bind_def split: sum.splits)
  from Cons.IH [OF rest] loop_body_mode [OF s1] show ?case by simp
qed

lemma shaped_state_dict:
  assumes "SimpleNN_shaped m"
  shows "map (\<lambda>(k, t). (k, shape t)) (state_dict m) =
           [(''layer1.weight'', [5, 10]), (''layer1.bias'', [5]),
            (''layer2.weight'', [1, 5]), (''layer2.bias'', [1])]"
  using assms
  by (auto simp: SimpleNN_shaped_def layer_shaped_def state_dict_def is_matrix_def
      split: list.splits)




subsection \<open>What the dataset and the reloaded model are computed from\<close>




subsection \<open>The claims\<close>

text \<open>
  C1: in a run of the notebook from a fresh kernel, whatever the generator returns, the
  training cell completes and leaves in \<open>model\<close> the network it constructed after
  exactly 100 iterations, each of them the forward pass \<open>model(X)\<close> on the full data,
  the loss \<open>criterion(outputs, y)\<close>, \<open>zero_grad\<close>, \<open>backward\<close> and
  \<open>step\<close> in this order: the module an iteration leaves is the optimizer step
  applied after the backward pass of the loss applied after \<open>zero_grad\<close>. The
  framework calls of the run are these five, 100 times over, and \<open>epoch\<close> ends at 99.
  A loss line is printed exactly at the iterations where \<open>epoch + 1\<close> is a multiple of
  20, that is 20, 40, 60, 80 and 100, and the value printed is \<open>loss.item()\<close> of
  the loss computed in that iteration, from the module as the iterations before it left
  it; \<open>outputs\<close> and \<open>loss\<close> end as those of the last iteration. In one
  iteration, from any module of the shapes of \<open>SimpleNN\<close> and any data of 10 and 1
  columns, the outputs are those of the module as the iteration finds it, the loss is
  computed from these outputs and the targets, and a line is added exactly when
  \<open>epoch + 1\<close> is a multiple of 20.
\<close>

theorem training_loop_order:
  fixes disk g mps cuda
  defines "X \<equiv> fst (draw_matrix 100 10 (\<lambda>k. g (k + 67)))"
  defines "y \<equiv> map (\<lambda>row. [sum_list row * 0.1]) X"
  defines "m0 \<equiv> fst (SimpleNN_init (snd (draw_matrix 100 10 (\<lambda>k. g (k + 67)))))"
  shows "(\<exists>s7 s' mT l20 l40 l60 l80 l100.
      run (take 7 code_cells) (fresh_kernel disk g mps cuda) = Inr s7
    \<and> globals s7 ''X'' = Some (FloatTensor (T2 X))
    \<and> globals s7 ''y'' = Some (FloatTensor (T2 y))
    \<and> after_iterations X y \<lparr>lr = 0.01\<rparr> 100 m0 = Inr mT
    \<and> globals s7 ''model'' = Some (Module mT)
    \<and> loss_of_iteration X y \<lparr>lr = 0.01\<rparr> 19 m0 = Inr l20
    \<and> loss_of_iteration X y \<lparr>lr = 0.01\<rparr> 39 m0 = Inr l40
    \<and> loss_of_iteration X y \<lparr>lr = 0.01\<rparr> 59 m0 = Inr l60
    \<and> loss_of_iteration X y \<lparr>lr = 0.01\<rparr> 79 m0 = Inr l80
    \<and> loss_of_iteration X y \<lparr>lr = 0.01\<rparr> 99 m0 = Inr l100
    \<and> globals s7 ''epoch'' = Some (PyInt 99)
    \<and> globals s7 ''outputs'' = Some (Outputs (of_outputs l100))
    \<and> globals s7 ''loss'' = Some (Loss l100)
    \<and> calls s7 = concat (map iteration_calls [0..<100])
    \<and> run code_cells (fresh_kernel disk g mps cuda) = Inr s'
    \<and> calls s' = concat (map iteration_calls [0..<100])
    \<and> length (filter (\<lambda>c. c = CallStep) (calls s')) = 100
    \<and> filter (\<lambda>(label, vs). label = ''Epoch'') (stdout s') =
          [(''Epoch'', [PyInt 20, PyFloat (item l20)]), (''Epoch'', [PyInt 40, PyFloat (item l40)]),
           (''Epoch'', [PyInt 60, PyFloat (item l60)]), (''Epoch'', [PyInt 80, PyFloat (item l80)]),
           (''Epoch'', [PyInt 100, PyFloat (item l100)])])
   \<and> (SimpleNN_shaped (t_model s) \<and> is_matrix n 10 A \<and> is_matrix n 1 b \<longrightarrow>
       (\<exists>outputs l s'. call_model (t_model s) A = Inr outputs
           \<and> criterion outputs b = Inr l
           \<and> loop_body A b opt epoch s = Inr s'
           \<and> t_outputs s' = Some outputs \<and> t_loss s' = Some l \<and> t_epoch s' = Some epoch
           \<and> t_model s' = step opt (backward l (zero_grad (t_model s)))
           \<and> train_once A b opt (t_model s) = Inr (t_model s')
           \<and> t_calls s' = t_calls s @ iteration_calls epoch
           \<and> t_printed s' = t_printed s
                @ (if (epoch + 1) mod 20 = 0 then [(epoch + 1, item l)] else [])))"
proof -
  from notebook_run [of disk g mps cuda]
  obtain s6 s7 s8 s9 s10 s11 m l20 l40 l60 l80 l100 where
    r: "run [cell1, cell2, cell3, cell4, cell5, cell6] (fresh_kernel disk g mps cuda) = Inr s6"
      "cell7 s6 = Inr s7" "cell8 s7 = Inr s8" "cell9 s8 = Inr s9"
      "cell10 s9 = Inr s10" "cell11 s10 = Inr s11"
    and g7: "globals s7 ''X'' = Some (FloatTensor (T2 X))"
      "globals s7 ''y'' = Some (FloatTensor (T2 y))"
      "globals s7 ''model'' = Some (Module m)"
      "globals s7 ''epoch'' = Some (PyInt 99)"
      "globals s7 ''outputs'' = Some (Outputs (of_outputs l100))"
      "globals s7 ''loss'' = Some (Loss l100)"
      "calls s7 = concat (map iteration_calls [0..<100])"
    and tr: "after_iterations X y \<lparr>lr = 0.01\<rparr> 100 m0 = Inr m"
      "loss_of_iteration X y \<lparr>lr = 0.01\<rparr> 19 m0 = Inr l20"
      "loss_of_iteration X y \<lparr>lr = 0.01\<rparr> 39 m0 = Inr l40"
      "loss_of_iteration X y \<lparr>lr = 0.01\<rparr> 59 m0 = Inr l60"
      "loss_of_iteration X y \<lparr>lr = 0.01\<rparr> 79 m0 = Inr l80"
      "loss_of_iteration X y \<lparr>lr = 0.01\<rparr> 99 m0 = Inr l100"
    and c: "calls s11 = concat (map iteration_calls [0..<100])"
    and l: "filter (\<lambda>(label, vs). label = ''Epoch'') (stdout s11) =
          [(''Epoch'', [PyInt 20, PyFloat (item l20)]), (''Epoch'', [PyInt 40, PyFloat (item l40)]),
           (''Epoch'', [PyInt 60, PyFloat (item l60)]), (''Epoch'', [PyInt 80, PyFloat (item l80)]),
           (''Epoch'', [PyInt 100, PyFloat (item l100)])]"
    unfolding X_def [symmetric] y_def [symmetric] m0_def [symmetric]
    by (elim exE conjE) (rule that)
  have "run ([cell1, cell2, cell3, cell4, cell5, cell6] @ [cell7])
          (fresh_kernel disk g mps cuda) = Inr s7"
    unfolding run_append using r by (simp add: bind_def)
  then have r7: "run (take 7 code_cells) (fresh_kernel disk g mps cuda) = Inr s7"
    by (simp add: code_cells_def)
  have "run ([cell1, cell2, cell3, cell4, cell5, cell6] @ [cell7, cell8, cell9, cell10, cell11])
          (fresh_kernel disk g mps cuda) = Inr s11"
    unfolding run_append using r by (simp add: bind_def)
  then have r11: "run code_cells (fresh_kernel disk g mps cuda) = Inr s11"
    by (simp add: code_cells_def)
  have n: "length (filter (\<lambda>c. c = CallStep) (calls s11)) = 100"
    unfolding c by (rule steps_count)
  have whole: "\<exists>s7 s' mT l20 l40 l60 l80 l100.
      run (take 7 code_cells) (fresh_kernel disk g mps cuda) = Inr s7
    \<and> globals s7 ''X'' = Some (FloatTensor (T2 X))
    \<and> globals s7 ''y'' = Some (FloatTensor (T2 y))
    \<and> after_iterations X y \<lparr>lr = 0.01\<rparr> 100 m0 = Inr mT
    \<and> globals s7 ''model'' = Some (Module mT)
    \<and> loss_of_iteration X y \<lparr>lr = 0.01\<rparr> 19 m0 = Inr l20
    \<and> loss_of_iteration X y \<lparr>lr = 0.01\<rparr> 39 m0 = Inr l40
    \<and> loss_of_iteration X y \<lparr>lr = 0.01\<rparr> 59 m0 = Inr l60
    \<and> loss_of_iteration X y \<lparr>lr = 0.01\<rparr> 79 m0 = Inr l80
    \<and> loss_of_iteration X y \<lparr>lr = 0.01\<rparr> 99 m0 = Inr l100
    \<and> globals s7 ''epoch'' = Some (PyInt 99)
    \<and> globals s7 ''outputs'' = Some (Outputs (of_outputs l100))
    \<and> globals s7 ''loss'' = Some (Loss l100)
    \<and> calls s7 = concat (map iteration_calls [0..<100])
    \<and> run code_cells (fresh_kernel disk g mps cuda) = Inr s'
    \<and> calls s' = concat (map iteration_calls [0..<100])
    \<and> length (filter (\<lambda>c. c = CallStep) (calls s')) = 100
    \<and> filter (\<lambda>(label, vs). label = ''Epoch'') (stdout s') =
          [(''Epoch'', [PyInt 20, PyFloat (item l20)]), (''Epoch'', [PyInt 40, PyFloat (item l40)]),
           (''Epoch'', [PyInt 60, PyFloat (item l60)]), (''Epoch'', [PyInt 80, PyFloat (item l80)]),
           (''Epoch'', [PyInt 100, PyFloat (item l100)])]"
    apply (rule exI [of _ s7], rule exI [of _ s11], rule exI [of _ m])
    apply (rule exI [of _ l20], rule exI [of _ l40], rule exI [of _ l60], rule exI [of _ l80],
        rule exI [of _ l100])
    using r7 g7 tr r11 c n l by (intro conjI)
  have one: "\<exists>outputs l s'. call_model (t_model s) A = Inr outputs
           \<and> criterion outputs b = Inr l
           \<and> loop_body A b opt epoch s = Inr s'
           \<and> t_outputs s' = Some outputs \<and> t_loss s' = Some l \<and> t_epoch s' = Some epoch
           \<and> t_model s' = step opt (backward l (zero_grad (t_model s)))
           \<and> train_once A b opt (t_model s) = Inr (t_model s')
           \<and> t_calls s' = t_calls s @ iteration_calls epoch
           \<and> t_printed s' = t_printed s
                @ (if (epoch + 1) mod 20 = 0 then [(epoch + 1, item l)] else [])"
    if "SimpleNN_shaped (t_model s)" "is_matrix n 10 A" "is_matrix n 1 b"
    using loop_body_refines [OF that, of opt epoch] by blast
  show ?thesis
    using whole one by (intro conjI impI) auto
qed


theorem training_loop_order_witness:
  "SimpleNN_shaped (fst (SimpleNN_init (constant_rng 1)))
   \<and> is_matrix 2 10 [replicate 10 (1::real), replicate 10 0]
   \<and> is_matrix 2 1 [[1::real], [0]]
   \<and> (\<exists>s'. loop_body [replicate 10 1, replicate 10 0] [[1], [0]] \<lparr>lr = 0.01\<rparr> 19
              \<lparr>t_model = fst (SimpleNN_init (constant_rng 1)), t_outputs = None, t_loss = None,
               t_epoch = None, t_printed = [], t_calls = []\<rparr> = Inr s'
         \<and> train_once [replicate 10 1, replicate 10 0] [[1], [0]] \<lparr>lr = 0.01\<rparr>
              (fst (SimpleNN_init (constant_rng 1))) = Inr (t_model s')
         \<and> map fst (t_printed s') = [20]
         \<and> t_calls s' = [CallForward, CallCriterion, CallZeroGrad, CallBackward, CallStep, CallPrint 20])"
proof -
  let ?m = "fst (SimpleNN_init (constant_rng 1))"
  let ?s = "\<lparr>t_model = ?m, t_outputs = None, t_loss = None,
               t_epoch = None, t_printed = [], t_calls = []\<rparr>"
  have h1: "SimpleNN_shaped (t_model ?s)"
    by (simp add: example_model SimpleNN_shaped_def layer_shaped_def is_matrix_def list_all_iff)
  have h2: "is_matrix 2 10 [replicate 10 (1::real), replicate 10 0]"
    by (simp add: is_matrix_def)
  have h3: "is_matrix 2 1 [[1::real], [0]]"
    by (simp add: is_matrix_def)
  note c2 = training_loop_order [where s = ?s and n = 2 and A = "[replicate 10 1, replicate 10 0]"
      and b = "[[1], [0]]" and opt = "\<lparr>lr = 0.01\<rparr>" and epoch = 19
      and disk = Map.empty and g = "constant_rng 0" and mps = False and cuda = False,
      THEN conjunct2, THEN mp, OF conjI [OF h1 conjI [OF h2 h3]]]
  from c2
  have "\<exists>s'. loop_body [replicate 10 1, replicate 10 0] [[1], [0]] \<lparr>lr = 0.01\<rparr> 19 ?s = Inr s'
         \<and> train_once [replicate 10 1, replicate 10 0] [[1], [0]] \<lparr>lr = 0.01\<rparr> ?m = Inr (t_model s')
         \<and> map fst (t_printed s') = [20]
         \<and> t_calls s' = [CallForward, CallCriterion, CallZeroGrad, CallBackward, CallStep, CallPrint 20]"
    by (fastforce simp: iteration_calls_def)
  with h1 h2 h3 show ?thesis by simp
qed

text \<open>
  C2: after \<open>z = x**2 + y**3\<close> with \<open>x = 2.0\<close> and \<open>y = 3.0\<close> and one call of
  \<open>z.backward()\<close>, \<open>x.grad\<close> is \<open>2 * x = 4.0\<close> and \<open>y.grad\<close> is
  \<open>3 * y**2 = 27.0\<close>. The numbers 2, 3, 4 and 27 and the products that lead to them
  are exact in 32-bit floats.
\<close>

theorem autograd_gradients:
  "autograd_example 2 3 =
     (\<lparr>data = 2, grad = Some 4\<rparr>, \<lparr>data = 3, grad = Some 27\<rparr>,
      AddNode (PowNode (LeafNode ''x'' 2) 2) (PowNode (LeafNode ''y'' 3) 3))
   \<and> grad (fst (autograd_example xv yv)) = Some (2 * xv)
   \<and> grad (fst (snd (autograd_example xv yv))) = Some (3 * yv\<^sup>2)"
  by (simp add: autograd_example_def receive_def Let_def power2_eq_square)

text \<open>
  C3: for every input \<open>x\<close>, \<open>SimpleNN.forward(x)\<close> is
  \<open>layer2(ReLU(layer1(x)))\<close>; \<open>layer1\<close> is an affine transform from 10 features to
  5 and \<open>layer2\<close> one from 5 features to 1, as constructed and as long as the shapes
  of the parameters stay; an input whose rows do not have the length \<open>layer1\<close> expects
  raises; the parameters of the network are those of the two layers.
\<close>

theorem forward_composition:
  "forward self x = bind (Linear_forward (layer1 self) x) (\<lambda>h. Linear_forward (layer2 self) (relu h))
   \<and> (SimpleNN_shaped self \<and> is_matrix n 10 x \<longrightarrow>
        (\<exists>h out. Linear_forward (layer1 self) x = Inr h \<and> is_matrix n 5 h
           \<and> h = map (affine_row (data (weight (layer1 self))) (data (bias (layer1 self)))) x
           \<and> Linear_forward (layer2 self) (relu h) = Inr out \<and> is_matrix n 1 out
           \<and> out = map (affine_row (data (weight (layer2 self))) (data (bias (layer2 self)))) (relu h)
           \<and> forward self x = Inr out))
   \<and> (\<not> list_all (\<lambda>r. length r = in_features (layer1 self)) x \<longrightarrow> forward self x = Inl RuntimeError)
   \<and> SimpleNN_shaped (fst (SimpleNN_init g))
   \<and> map fst (state_dict self) = [''layer1.weight'', ''layer1.bias'', ''layer2.weight'', ''layer2.bias'']"
proof -
  have a: "forward self x = bind (Linear_forward (layer1 self) x) (\<lambda>h. Linear_forward (layer2 self) (relu h))"
    by (simp add: forward_def Let_def)
  have b: "\<exists>h out. Linear_forward (layer1 self) x = Inr h \<and> is_matrix n 5 h
           \<and> h = map (affine_row (data (weight (layer1 self))) (data (bias (layer1 self)))) x
           \<and> Linear_forward (layer2 self) (relu h) = Inr out \<and> is_matrix n 1 out
           \<and> out = map (affine_row (data (weight (layer2 self))) (data (bias (layer2 self)))) (relu h)
           \<and> forward self x = Inr out"
    if sh: "SimpleNN_shaped self" and mx: "is_matrix n 10 x"
  proof -
    let ?h = "map (affine_row (data (weight (layer1 self))) (data (bias (layer1 self)))) x"
    from sh have l1: "layer_shaped 10 5 (layer1 self)" and l2: "layer_shaped 5 1 (layer2 self)"
      by (simp_all add: SimpleNN_shaped_def)
    note h = linear_shaped [OF l1 mx]
    note o = linear_shaped [OF l2 is_matrix_relu [OF h(2)]]
    show ?thesis using h o by (simp add: a bind_def)
  qed
  have c: "forward self x = Inl RuntimeError"
    if "\<not> list_all (\<lambda>r. length r = in_features (layer1 self)) x"
    using linear_rejects [OF that] by (simp add: a bind_def)
  have d: "map fst (state_dict self) = [''layer1.weight'', ''layer1.bias'', ''layer2.weight'', ''layer2.bias'']"
    by (simp add: state_dict_def)
  show ?thesis using a b c d SimpleNN_init_shaped [of g] by blast
qed

theorem forward_composition_witness:
  "SimpleNN_shaped (fst (SimpleNN_init (constant_rng 1)))
   \<and> is_matrix 1 10 [replicate 10 (1::real)]
   \<and> forward (fst (SimpleNN_init (constant_rng 1))) [replicate 10 1] = Inr [[56]]
   \<and> \<not> list_all (\<lambda>r. length r = in_features (layer1 (fst (SimpleNN_init (constant_rng 1))))) [[1, 1]]
   \<and> forward (fst (SimpleNN_init (constant_rng 1))) [[1, 1]] = Inl RuntimeError"
proof -
  let ?m = "fst (SimpleNN_init (constant_rng 1))"
  have h1: "SimpleNN_shaped ?m"
    by (simp add: example_model SimpleNN_shaped_def layer_shaped_def is_matrix_def list_all_iff)
  have h2: "is_matrix 1 10 [replicate 10 (1::real)]"
    by (simp add: is_matrix_def)
  have h3: "\<not> list_all (\<lambda>r. length r = in_features (layer1 ?m)) [[1, 1]]"
    by (simp add: example_model)
  from forward_composition [of ?m "[replicate 10 1]" 1] h1 h2
  obtain h out where "h = map (affine_row (data (weight (layer1 ?m))) (data (bias (layer1 ?m)))) [replicate 10 1]"
    and "out = map (affine_row (data (weight (layer2 ?m))) (data (bias (layer2 ?m)))) (relu h)"
    and "forward ?m [replicate 10 1] = Inr out"
    by blast
  then have v: "forward ?m [replicate 10 1] = Inr [[56]]"
    by (simp add: example_model affine_row_def dot_def relu_def numeral_eq_Suc)
  from forward_composition [of ?m "[[1, 1]]"] h3
  have e: "forward ?m [[1, 1]] = Inl RuntimeError" by blast
  show ?thesis using h1 h2 h3 v e by (intro conjI)
qed

text \<open>
  C4: saving \<open>model.state_dict()\<close> to \<open>model.pth\<close> and loading that file into a
  freshly constructed \<open>SimpleNN\<close> is a round trip. In a run of the notebook from a
  fresh kernel, after cell 9 every parameter of \<open>loaded_model\<close> equals the parameter of
  \<open>model\<close> of the same name, and the whole run performs one file write and one file
  read, both of \<open>model.pth\<close>.
\<close>

theorem save_load_round_trip:
  "\<exists>s9 s' m lm.
      run (take 9 code_cells) (fresh_kernel disk g mps cuda) = Inr s9
    \<and> globals s9 ''model'' = Some (Module m)
    \<and> globals s9 ''loaded_model'' = Some (Module lm)
    \<and> state_dict lm = state_dict m
    \<and> files s9 ''model.pth'' = Some (state_dict m)
    \<and> run code_cells (fresh_kernel disk g mps cuda) = Inr s'
    \<and> file_ops s' = [FileWrite ''model.pth'', FileRead ''model.pth'']"
proof -
  from notebook_run [of disk g mps cuda]
  obtain s6 s7 s8 s9 s10 s11 m lm where
    r: "run [cell1, cell2, cell3, cell4, cell5, cell6] (fresh_kernel disk g mps cuda) = Inr s6"
      "cell7 s6 = Inr s7" "cell8 s7 = Inr s8" "cell9 s8 = Inr s9"
      "cell10 s9 = Inr s10" "cell11 s10 = Inr s11"
    and f: "globals s9 ''model'' = Some (Module m)" "globals s9 ''loaded_model'' = Some (Module lm)"
      "state_dict lm = state_dict m" "files s9 ''model.pth'' = Some (state_dict m)"
      "file_ops s11 = [FileWrite ''model.pth'', FileRead ''model.pth'']"
    by (elim exE conjE) (rule that)
  have r8: "run ([cell1, cell2, cell3, cell4, cell5, cell6] @ [cell7, cell8])
          (fresh_kernel disk g mps cuda) = Inr s8"
    unfolding run_append using r by (simp add: bind_def)
  have r9: "run ([cell1, cell2, cell3, cell4, cell5, cell6] @ [cell7, cell8, cell9])
          (fresh_kernel disk g mps cuda) = Inr s9"
    unfolding run_append using r by (simp add: bind_def)
  have r11: "run ([cell1, cell2, cell3, cell4, cell5, cell6] @ [cell7, cell8, cell9, cell10, cell11])
          (fresh_kernel disk g mps cuda) = Inr s11"
    unfolding run_append using r by (simp add: bind_def)
  have "run (take 9 code_cells) (fresh_kernel disk g mps cuda) = Inr s9"
    "run (take 8 code_cells) (fresh_kernel disk g mps cuda) = Inr s8"
    "run code_cells (fresh_kernel disk g mps cuda) = Inr s11"
    using r8 r9 r11 by (simp_all add: code_cells_def)
  with f show ?thesis by auto
qed

text \<open>
  C5 (as stated): for every dataset \<open>CustomDataset(X, y)\<close> and every \<open>idx\<close> with
  \<open>0 \<le> idx < len(X)\<close>, \<open>__getitem__(idx)\<close> returns the pair
  \<open>(X[idx], y[idx])\<close>. With two inputs and one target the index 1 is in range of
  \<open>X\<close>, and the call raises \<open>IndexError\<close> from \<open>self.y[idx]\<close>.
\<close>

theorem getitem_short_target:
  "(0::int) \<le> 1 \<and> 1 < int (length [10, 20 :: int])
   \<and> getitem (CustomDataset_init [10, 20 :: int] [7 :: int]) 1 = Inl IndexError"
  by (simp add: getitem_def CustomDataset_init_def subscript_def bind_def)

text \<open>
  C5 (amended): for every dataset \<open>CustomDataset(X, y)\<close> and every \<open>idx\<close> with
  \<open>0 \<le> idx < len(X)\<close> and \<open>idx < len(y)\<close>, \<open>__getitem__(idx)\<close> returns exactly the
  pair \<open>(X[idx], y[idx])\<close>, and \<open>__len__()\<close> returns the number of samples in \<open>X\<close>.
\<close>

theorem getitem_pair:
  assumes "0 \<le> idx" and "idx < int (length X)" and "idx < int (length y)"
  shows "getitem (CustomDataset_init X y) idx = Inr (X ! nat idx, y ! nat idx)
         \<and> len (CustomDataset_init X y) = length X"
  using assms by (simp add: getitem_def len_def CustomDataset_init_def subscript_def bind_def)

theorem getitem_pair_witness:
  "(0::int) \<le> 1 \<and> 1 < int (length [10, 20 :: int]) \<and> 1 < int (length [7, 8 :: int])
   \<and> getitem (CustomDataset_init [10, 20 :: int] [7, 8 :: int]) 1 = Inr (20, 8)
   \<and> len (CustomDataset_init [10, 20 :: int] [7, 8 :: int]) = 2"
  using getitem_pair [of 1 "[10, 20 :: int]" "[7, 8 :: int]"] by simp







text \<open>
  C8: the device-selection snippet always assigns exactly one device: \<open>mps\<close> when the
  MPS backend is available, otherwise \<open>cuda\<close> when CUDA is available, otherwise
  \<open>cpu\<close>. The three branches are exhaustive and mutually exclusive, in that order, and
  cell 4, run after the import of \<open>torch\<close>, binds \<open>device\<close> to that choice without
  raising.
\<close>

theorem select_device_priority:
  "(select_device m c = Mps) = m
   \<and> (select_device m c = Cuda) = (\<not> m \<and> c)
   \<and> (select_device m c = Cpu) = (\<not> m \<and> \<not> c)
   \<and> (\<exists>!d. select_device m c = d)
   \<and> (globals s ''torch'' = Some t \<longrightarrow>
        variable_after ''device'' (cell4 s)
          = Inr (Some (DeviceV (select_device (mps_available s) (cuda_available s)))))"
  by (simp add: select_device_def cell4_def cell_simps variable_after_def)

theorem select_device_priority_witness:
  "globals (assign ''torch'' (PyModule ''torch'') (fresh_kernel Map.empty (constant_rng 0) False True))
      ''torch'' = Some (PyModule ''torch'')
   \<and> variable_after ''device''
        (cell4 (assign ''torch'' (PyModule ''torch'') (fresh_kernel Map.empty (constant_rng 0) False True)))
       = Inr (Some (DeviceV Cuda))"
proof -
  let ?s = "assign ''torch'' (PyModule ''torch'') (fresh_kernel Map.empty (constant_rng 0) False True)"
  have h: "globals ?s ''torch'' = Some (PyModule ''torch'')" by (simp add: assign_def)
  have f: "mps_available ?s = False" "cuda_available ?s = True"
    by (simp_all add: assign_def fresh_kernel_def)
  from select_device_priority [of False True ?s "PyModule ''torch''"] h
  have "variable_after ''device'' (cell4 ?s)
          = Inr (Some (DeviceV (select_device (mps_available ?s) (cuda_available ?s))))"
    and "select_device False True = Cuda"
    by simp_all
  with h f show ?thesis by simp
qed

text \<open>
  C9: for \<open>a = [1, 2, 3]\<close> and \<open>b = [4, 5, 6]\<close> of dtype int64,
  \<open>torch.matmul(a, b)\<close> is the scalar \<open>1*4 + 2*5 + 3*6 = 32\<close>, \<open>a * b\<close> is the
  tensor \<open>[4, 10, 18]\<close>, and the two results differ.
\<close>

theorem matmul_vs_mul:
  "matmul [1, 2, 3] [4, 5, 6] = Inr 32
   \<and> (32 :: int64) = 1 * 4 + 2 * 5 + 3 * 6
   \<and> tensor_mul [1, 2, 3] [4, 5, 6] = Inr [4, 10, 18]
   \<and> map_sum id T0 (matmul [1, 2, 3] [4, 5, 6]) \<noteq> map_sum id T1 (tensor_mul [1, 2, 3] [4, 5, 6])"
  by (simp add: matmul_def tensor_mul_def elementwise_def)

text \<open>
  C10: the iterations of the training loop preserve the set of parameters and their
  shapes. Started on a network of the shapes of \<open>SimpleNN\<close>, with 10 features per
  input row and one target per row, any number of iterations completes and leaves the four
  parameters with their names and shapes (\<open>layer1\<close> 10 to 5, \<open>layer2\<close> 5 to 1)
  and the mode flag as they were.
\<close>

theorem iterations_preserve_shapes:
  assumes "SimpleNN_shaped (t_model s)" and "is_matrix n 10 X" and "is_matrix n 1 y"
  shows "\<exists>s'. for_loop (loop_body X y opt) es s = Inr s'
           \<and> SimpleNN_shaped (t_model s')
           \<and> map (\<lambda>(k, t). (k, shape t)) (state_dict (t_model s')) =
               [(''layer1.weight'', [5, 10]), (''layer1.bias'', [5]),
                (''layer2.weight'', [1, 5]), (''layer2.bias'', [1])]
           \<and> map (\<lambda>(k, t). (k, shape t)) (state_dict (t_model s')) =
               map (\<lambda>(k, t). (k, shape t)) (state_dict (t_model s))
           \<and> training (t_model s') = training (t_model s)"
proof -
  from for_loop_ok [OF assms, of opt es]
  obtain s' where s': "for_loop (loop_body X y opt) es s = Inr s'" "SimpleNN_shaped (t_model s')"
    by (elim exE conjE) (rule that)
  show ?thesis
    using s' for_loop_mode [OF s'(1)] shaped_state_dict [OF s'(2)] shaped_state_dict [OF assms(1)]
    by simp
qed

theorem iterations_preserve_shapes_witness:
  "SimpleNN_shaped (fst (SimpleNN_init (constant_rng 1)))
   \<and> is_matrix 2 10 [replicate 10 (1::real), replicate 10 0]
   \<and> is_matrix 2 1 [[1::real], [0]]
   \<and> (\<exists>s'. for_loop (loop_body [replicate 10 1, replicate 10 0] [[1], [0]] \<lparr>lr = 0.01\<rparr>) [0, 1, 2]
              \<lparr>t_model = fst (SimpleNN_init (constant_rng 1)), t_outputs = None, t_loss = None,
               t_epoch = None, t_printed = [], t_calls = []\<rparr> = Inr s'
         \<and> SimpleNN_shaped (t_model s')
         \<and> map (\<lambda>(k, t). (k, shape t)) (state_dict (t_model s')) =
               [(''layer1.weight'', [5, 10]), (''layer1.bias'', [5]),
                (''layer2.weight'', [1, 5]), (''layer2.bias'', [1])]
         \<and> training (t_model s'))"
proof -
  let ?m = "fst (SimpleNN_init (constant_rng 1))"
  let ?s = "\<lparr>t_model = ?m, t_outputs = None, t_loss = None,
               t_epoch = None, t_printed = [], t_calls = []\<rparr>"
  have h1: "SimpleNN_shaped (t_model ?s)"
    by (simp add: example_model SimpleNN_shaped_def layer_shaped_def is_matrix_def list_all_iff)
  have h2: "is_matrix 2 10 [replicate 10 (1::real), replicate 10 0]"
    by (simp add: is_matrix_def)
  have h3: "is_matrix 2 1 [[1::real], [0]]"
    by (simp add: is_matrix_def)
  have t: "training ?m" by (simp add: example_model)
  from iterations_preserve_shapes [OF h1 h2 h3, of "\<lparr>lr = 0.01\<rparr>" "[0, 1, 2]"] t
  have "\<exists>s'. for_loop (loop_body [replicate 10 1, replicate 10 0] [[1], [0]] \<lparr>lr = 0.01\<rparr>) [0, 1, 2] ?s = Inr s'
         \<and> SimpleNN_shaped (t_model s')
         \<and> map (\<lambda>(k, t). (k, shape t)) (state_dict (t_model s')) =
               [(''layer1.weight'', [5, 10]), (''layer1.bias'', [5]),
                (''layer2.weight'', [1, 5]), (''layer2.bias'', [1])]
         \<and> training (t_model s')"
    by auto
  with h1 h2 h3 show ?thesis by simp
qed

end
